theory Spec2Isabelle
  imports Complex_Main "HOL-Library.AList"
begin

section \<open>Python values as the report generator sees them\<close>

text \<open>
  The model covers \<^verbatim>\<open>scripts/ai_stress_report.py\<close>. Everything the script reads from
  outside (the k6 summary, the run metadata, the model's answer) is decoded JSON, so it is a
  value of type \<open>json\<close>; a Python dict is an association list in insertion order, with
  distinct keys as a Python dict has them. Numbers are exact rationals standing for Python's
  ints and floats: the rounding of binary floating point, NaN and the infinities are not
  modelled. Strings are ASCII byte strings. Dicts that the script builds itself with a fixed
  shape (the rate-limit signal bundle, a check record, a source's health, the highlights) are
  records.

  Every exception the script's own code can raise on such values is a result \<open>Inl e\<close>.
\<close>

datatype json =
    JNull
  | JBool bool
  | JNum rat
  | JStr string
  | JArr "json list"
  | JObj "(string \<times> json) list"

type_synonym dict = "(string \<times> json) list"

datatype error = AttributeError | TypeError | ValueError | OverflowError

definition bnd :: "error + 'a \<Rightarrow> ('a \<Rightarrow> error + 'b) \<Rightarrow> error + 'b" where
  "bnd m f = (case m of Inl e \<Rightarrow> Inl e | Inr v \<Rightarrow> f v)"

text \<open>Truth value testing (\<^verbatim>\<open>if x\<close>, \<^verbatim>\<open>x or y\<close>).\<close>

fun truthy :: "json \<Rightarrow> bool" where
  "truthy JNull = False"
| "truthy (JBool b) = b"
| "truthy (JNum x) = (x \<noteq> 0)"
| "truthy (JStr s) = (s \<noteq> [])"
| "truthy (JArr xs) = (xs \<noteq> [])"
| "truthy (JObj kvs) = (kvs \<noteq> [])"

definition py_or :: "json \<Rightarrow> json \<Rightarrow> json" where
  "py_or x y = (if truthy x then x else y)"

text \<open>\<^verbatim>\<open>isinstance(v, (int, float))\<close>: a bool is an int in Python.\<close>

fun is_number :: "json \<Rightarrow> bool" where
  "is_number (JNum x) = True"
| "is_number (JBool b) = True"
| "is_number _ = False"

fun num_of :: "json \<Rightarrow> rat" where
  "num_of (JNum x) = x"
| "num_of (JBool b) = (if b then 1 else 0)"
| "num_of _ = 0"

fun is_dict :: "json \<Rightarrow> bool" where
  "is_dict (JObj kvs) = True"
| "is_dict _ = False"

text \<open>\<^verbatim>\<open>d.get(k)\<close> and \<^verbatim>\<open>d.get(k, default)\<close> on a dict.\<close>

definition dict_get :: "dict \<Rightarrow> string \<Rightarrow> json" where
  "dict_get d k = (case map_of d k of None \<Rightarrow> JNull | Some v \<Rightarrow> v)"

definition dict_get_or :: "dict \<Rightarrow> string \<Rightarrow> json \<Rightarrow> json" where
  "dict_get_or d k dflt = (case map_of d k of None \<Rightarrow> dflt | Some v \<Rightarrow> v)"

text \<open>The same calls on a value of unknown type: only a dict has the method.\<close>

definition py_get :: "json \<Rightarrow> string \<Rightarrow> error + json" where
  "py_get v k = (case v of JObj d \<Rightarrow> Inr (dict_get d k) | _ \<Rightarrow> Inl AttributeError)"

definition py_get_or :: "json \<Rightarrow> string \<Rightarrow> json \<Rightarrow> error + json" where
  "py_get_or v k dflt = (case v of JObj d \<Rightarrow> Inr (dict_get_or d k dflt) | _ \<Rightarrow> Inl AttributeError)"

text \<open>
  \<^verbatim>\<open>float(v)\<close>. On a str the result is that of Python's own parser, which is not part of
  the repository: it is the parameter \<open>float_of_str\<close> (\<open>None\<close> for ValueError).
\<close>

definition py_float :: "(string \<Rightarrow> rat option) \<Rightarrow> json \<Rightarrow> error + rat" where
  "py_float float_of_str v =
     (case v of
        JNum x \<Rightarrow> Inr x
      | JBool b \<Rightarrow> Inr (if b then 1 else 0)
      | JStr s \<Rightarrow> (case float_of_str s of None \<Rightarrow> Inl ValueError | Some x \<Rightarrow> Inr x)
      | _ \<Rightarrow> Inl TypeError)"

section \<open>Static registries\<close>

definition CANONICAL_WRITE_CHECKS :: "string list" where
  "CANONICAL_WRITE_CHECKS =
     [''create post status 201'',
      ''comment status ok'',
      ''friend request status acceptable'',
      ''dm send status acceptable'']"

definition PROFILE_FAILURE_THRESHOLDS :: "(string \<times> rat) list" where
  "PROFILE_FAILURE_THRESHOLDS =
     [(''low'', 5 / 100), (''medium'', 8 / 100), (''high'', 10 / 100),
      (''extreme'', 12 / 100), (''insane'', 15 / 100)]"

text \<open>\<^verbatim>\<open>PROFILE_FAILURE_THRESHOLDS.get(profile, 0.08)\<close>\<close>

definition profile_threshold :: "string \<Rightarrow> rat" where
  "profile_threshold profile =
     (case map_of PROFILE_FAILURE_THRESHOLDS profile of None \<Rightarrow> 8 / 100 | Some t \<Rightarrow> t)"

section \<open>Per-check pass rates: \<^verbatim>\<open>_extract_root_group_checks\<close>\<close>

record check_rec =
  passes :: rat
  fails :: rat
  pass_rate :: rat

text \<open>
  The body of the loop for one check whose data is a dict. \<^verbatim>\<open>passes + fails\<close> and
  \<^verbatim>\<open>passes / total\<close> raise TypeError unless both counts are numbers: two strings or two
  lists concatenate to a non-empty, hence truthy, total and the division then raises.
\<close>

definition check_record :: "dict \<Rightarrow> error + check_rec" where
  "check_record data =
     (let p = py_or (dict_get_or data ''passes'' (JNum 0)) (JNum 0);
          f = py_or (dict_get_or data ''fails'' (JNum 0)) (JNum 0)
      in if is_number p \<and> is_number f then
           (let total = num_of p + num_of f
            in Inr \<lparr>passes = num_of p, fails = num_of f,
                    pass_rate = (if total \<noteq> 0 then num_of p / total else 1)\<rparr>)
         else Inl TypeError)"

fun extract_checks_loop ::
  "(string \<times> json) list \<Rightarrow> (string \<times> check_rec) list \<Rightarrow> error + (string \<times> check_rec) list" where
  "extract_checks_loop [] result = Inr result"
| "extract_checks_loop ((name, data) # rest) result =
     (case data of
        JObj d \<Rightarrow> bnd (check_record d) (\<lambda>r. extract_checks_loop rest (AList.update name r result))
      | _ \<Rightarrow> extract_checks_loop rest result)"

definition extract_root_group_checks :: "json \<Rightarrow> error + (string \<times> check_rec) list" where
  "extract_root_group_checks summary =
     bnd (py_get summary ''root_group'') (\<lambda>r0.
     bnd (py_get (py_or r0 (JObj [])) ''checks'') (\<lambda>c0.
       (case py_or c0 (JObj []) of
          JObj checks \<Rightarrow> extract_checks_loop checks []
        | _ \<Rightarrow> Inr [])))"

section \<open>The declared threshold: \<^verbatim>\<open>_parse_failure_threshold_from_summary\<close>\<close>

text \<open>
  \<^verbatim>\<open>re.search(r"rate\s*<\s*([\d.]+)", expr, re.IGNORECASE)\<close>. Neither \<^verbatim>\<open><\<close> nor a digit
  or dot is white space, so each greedy \<^verbatim>\<open>\s*\<close> takes all the white space there is and
  the group is the longest run of digits and dots; the search returns the leftmost match.
\<close>

definition is_space :: "char \<Rightarrow> bool" where
  "is_space c = (c \<in> set [CHR 0x09, CHR 0x0A, CHR 0x0B, CHR 0x0C, CHR 0x0D,
                            CHR 0x1C, CHR 0x1D, CHR 0x1E, CHR 0x1F, CHR 0x20])"

definition is_digit :: "char \<Rightarrow> bool" where
  "is_digit c = (c \<in> set ''0123456789'')"

definition is_digit_or_dot :: "char \<Rightarrow> bool" where
  "is_digit_or_dot c = (is_digit c \<or> c = CHR ''.'')"

fun match_rate_here :: "string \<Rightarrow> string option" where
  "match_rate_here (a # b # c # d # rest) =
     (if a \<in> set ''rR'' \<and> b \<in> set ''aA'' \<and> c \<in> set ''tT'' \<and> d \<in> set ''eE'' then
        (case dropWhile is_space rest of
           [] \<Rightarrow> None
         | lt # rest' \<Rightarrow>
             if lt = CHR ''<'' then
               (let g = takeWhile is_digit_or_dot (dropWhile is_space rest')
                in if g = [] then None else Some g)
             else None)
      else None)"
| "match_rate_here _ = None"

fun search_rate :: "string \<Rightarrow> string option" where
  "search_rate [] = None"
| "search_rate (c # cs) =
     (case match_rate_here (c # cs) of Some g \<Rightarrow> Some g | None \<Rightarrow> search_rate cs)"

text \<open>
  \<^verbatim>\<open>float(match.group(1))\<close> on a run of digits and dots: ValueError (here \<open>None\<close>) unless
  the run has at most one dot and at least one digit.
\<close>

definition digit_val :: "char \<Rightarrow> nat" where
  "digit_val c = of_char c - 48"

definition digits_val :: "string \<Rightarrow> nat" where
  "digits_val ds = foldl (\<lambda>acc c. 10 * acc + digit_val c) 0 ds"

definition float_of_decimal :: "string \<Rightarrow> rat option" where
  "float_of_decimal g =
     (let ip = takeWhile is_digit g; rest = dropWhile is_digit g
      in case rest of
           [] \<Rightarrow> if ip = [] then None else Some (of_nat (digits_val ip))
         | dot # fp \<Rightarrow>
             if list_all is_digit fp \<and> (ip \<noteq> [] \<or> fp \<noteq> []) then
               Some (of_nat (digits_val ip) + of_nat (digits_val fp) / 10 ^ length fp)
             else None)"

definition threshold_of_expr :: "string \<Rightarrow> rat option" where
  "threshold_of_expr expr =
     (case search_rate expr of None \<Rightarrow> None | Some g \<Rightarrow> float_of_decimal g)"

text \<open>The loop over \<^verbatim>\<open>thresholds.items()\<close>: the first expression that yields a float.\<close>

fun first_threshold :: "string list \<Rightarrow> rat option" where
  "first_threshold [] = None"
| "first_threshold (expr # rest) =
     (case threshold_of_expr expr of Some x \<Rightarrow> Some x | None \<Rightarrow> first_threshold rest)"

definition parse_failure_threshold_from_summary :: "json \<Rightarrow> error + rat option" where
  "parse_failure_threshold_from_summary summary =
     bnd (py_get_or summary ''metrics'' (JObj [])) (\<lambda>m0.
     bnd (py_get (py_or m0 (JObj [])) ''http_req_failed'') (\<lambda>h0.
     bnd (py_get (py_or h0 (JObj [])) ''thresholds'') (\<lambda>t0.
       (case py_or t0 (JObj []) of
          JObj thresholds \<Rightarrow> Inr (first_threshold (map fst thresholds))
        | _ \<Rightarrow> Inr None))))"

section \<open>The rate-limit signal bundle: \<^verbatim>\<open>build_rate_limit_signals\<close>\<close>

record write_check = check_rec +
  check_name :: string

record loki_entry =
  timestamp_ns :: json
  line :: json
  labels :: json
  category :: string

record loki_query =
  query_name :: string
  query_expr :: string
  entry_count :: nat

record loki_payload =
  loki_window :: "string \<times> string"
  loki_queries :: "loki_query list"
  entries :: "loki_entry list"

record rate_limit_signals =
  http_req_failed_rate :: "rat option"
  http_req_failed_threshold :: rat
  loki_rate_limit_entry_count :: nat
  critical_write_checks :: "write_check list"
  likely_rate_limited_endpoints :: "string list"

text \<open>Lines 296 to 304: the observed failure rate, \<open>None\<close> when the summary has none.\<close>

definition observed_failed_rate :: "(string \<Rightarrow> rat option) \<Rightarrow> json \<Rightarrow> error + rat option" where
  "observed_failed_rate float_of_str summary =
     bnd (py_get_or summary ''metrics'' (JObj [])) (\<lambda>m0.
     bnd (py_get (py_or m0 (JObj [])) ''http_req_failed'') (\<lambda>h0.
     let http_failed = py_or h0 (JObj []) in
     bnd (py_get http_failed ''values'') (\<lambda>vals.
     bnd (py_get http_failed ''value'') (\<lambda>direct.
     let r1 = (case vals of
                 JObj vd \<Rightarrow> py_or (dict_get vd ''rate'') (dict_get vd ''value'')
               | _ \<Rightarrow> JNull);
         r2 = (if r1 = JNull \<and> is_number direct then direct else r1)
     in if r2 = JNull then Inr None
        else bnd (py_float float_of_str r2) (\<lambda>x. Inr (Some x))))))"

text \<open>Lines 306 to 308: the declared threshold, else the profile's default.\<close>

definition resolve_threshold :: "json \<Rightarrow> string \<Rightarrow> error + rat" where
  "resolve_threshold summary profile =
     bnd (parse_failure_threshold_from_summary summary) (\<lambda>t.
       Inr (case t of None \<Rightarrow> profile_threshold profile | Some x \<Rightarrow> x))"

text \<open>
  Lines 316 to 323: the loop over the canonical names, with the two lists it appends to.
\<close>

fun write_checks_loop ::
  "(string \<times> check_rec) list \<Rightarrow> string list \<Rightarrow> write_check list \<times> string list
     \<Rightarrow> write_check list \<times> string list" where
  "write_checks_loop per_check [] acc = acc"
| "write_checks_loop per_check (name # names) (cw, sc) =
     (case map_of per_check name of
        None \<Rightarrow> write_checks_loop per_check names (cw, sc)
      | Some r \<Rightarrow>
          write_checks_loop per_check names
            (cw @ [\<lparr>passes = passes r, fails = fails r, pass_rate = pass_rate r,
                     check_name = name\<rparr>],
             if pass_rate r < 20 / 100 then sc @ [name] else sc))"

text \<open>Lines 325 to 333: the four tests on the severely constrained names.\<close>

definition endpoints_of :: "string list \<Rightarrow> string list" where
  "endpoints_of sc =
     (if ''create post status 201'' \<in> set sc then [''POST /api/posts''] else []) @
     (if ''comment status ok'' \<in> set sc then [''POST /api/posts/:id/comments''] else []) @
     (if ''friend request status acceptable'' \<in> set sc
        then [''POST /api/friends/requests/:id''] else []) @
     (if ''dm send status acceptable'' \<in> set sc
        then [''POST /api/conversations/:id/messages''] else [])"

text \<open>
  The same four tests read as the table they implement, check name to endpoint; lemma
  \<open>endpoints_of_iff\<close> below relates the two.
\<close>

definition endpoint_table :: "(string \<times> string) list" where
  "endpoint_table =
     [(''create post status 201'', ''POST /api/posts''),
      (''comment status ok'', ''POST /api/posts/:id/comments''),
      (''friend request status acceptable'', ''POST /api/friends/requests/:id''),
      (''dm send status acceptable'', ''POST /api/conversations/:id/messages'')]"

definition build_rate_limit_signals ::
  "(string \<Rightarrow> rat option) \<Rightarrow> json \<Rightarrow> string \<Rightarrow> loki_payload \<Rightarrow> error + rate_limit_signals" where
  "build_rate_limit_signals float_of_str summary profile loki =
     bnd (observed_failed_rate float_of_str summary) (\<lambda>failed_rate.
     bnd (resolve_threshold summary profile) (\<lambda>threshold.
     let rate_limit_entries = filter (\<lambda>e. category e = ''rate_limit'') (entries loki) in
     bnd (extract_root_group_checks summary) (\<lambda>per_check.
     let (cw, sc) = write_checks_loop per_check CANONICAL_WRITE_CHECKS ([], [])
     in Inr \<lparr>http_req_failed_rate = failed_rate,
             http_req_failed_threshold = threshold,
             loki_rate_limit_entry_count = length rate_limit_entries,
             critical_write_checks = cw,
             likely_rate_limited_endpoints = endpoints_of sc\<rparr>)))"

section \<open>The status policy: \<^verbatim>\<open>apply_status_policy\<close>\<close>

text \<open>
  Python's number formatting is the standard library's, not the repository's: the report
  generator is parametrised by it. \<open>fmt_fixed n x\<close> is \<^verbatim>\<open>f"{x:.nf}"\<close>, \<open>fmt_percent n x\<close>
  is \<^verbatim>\<open>f"{x:.n%}"\<close>, \<open>fmt_num x\<close> is \<^verbatim>\<open>f"{x}"\<close> and \<open>fmt_repr v\<close> is \<^verbatim>\<open>str(v)\<close> for a
  value that is not a str.
\<close>

record fmt =
  fmt_fixed :: "nat \<Rightarrow> rat \<Rightarrow> string"
  fmt_percent :: "nat \<Rightarrow> rat \<Rightarrow> string"
  fmt_num :: "rat \<Rightarrow> string"
  fmt_repr :: "json \<Rightarrow> string"

record analysis =
  model_fields :: dict
  status :: string
  deterministic_status :: string
  deterministic_reasons :: "string list"
  rate_limit_signals :: rate_limit_signals

text \<open>
  The record \<open>analysis\<close> is the dict \<^verbatim>\<open>apply_status_policy\<close> returns: the four keys it
  always writes are the typed fields, and \<open>model_fields\<close> holds the other keys of the
  model's (or the fallback's) answer, \<^verbatim>\<open>findings\<close> among them.
\<close>

text \<open>Line 372.\<close>

definition policy_threshold :: "rate_limit_signals \<Rightarrow> string \<Rightarrow> rat" where
  "policy_threshold rls profile =
     (if http_req_failed_threshold rls \<noteq> 0 then http_req_failed_threshold rls
      else profile_threshold profile)"

definition failed_rate_reason :: "fmt \<Rightarrow> rat \<Rightarrow> rat \<Rightarrow> string" where
  "failed_rate_reason F failed_rate threshold =
     ''http_req_failed rate '' @ fmt_fixed F 4 failed_rate @
     '' exceeds profile threshold '' @ fmt_num F threshold"

definition write_check_reason :: "fmt \<Rightarrow> write_check \<Rightarrow> string" where
  "write_check_reason F rec =
     ''Write check '' @ [CHR 0x27] @ check_name rec @ [CHR 0x27] @
     '' pass rate '' @ fmt_percent F 2 (pass_rate rec) @ '' < 20%''"

text \<open>Lines 378 to 382: the loop over the bundle's write checks.\<close>

fun write_check_policy :: "fmt \<Rightarrow> write_check list \<Rightarrow> string \<times> string list \<Rightarrow> string \<times> string list" where
  "write_check_policy F [] acc = acc"
| "write_check_policy F (rec # recs) (st, reasons) =
     (if pass_rate rec < 20 / 100
      then write_check_policy F recs (''CRITICAL'', reasons @ [write_check_reason F rec])
      else write_check_policy F recs (st, reasons))"

text \<open>Lines 370 to 382: the deterministic status and its reasons.\<close>

definition deterministic_policy :: "fmt \<Rightarrow> rate_limit_signals \<Rightarrow> string \<Rightarrow> string \<times> string list" where
  "deterministic_policy F rls profile =
     (let threshold = policy_threshold rls profile;
          start = (case http_req_failed_rate rls of
                     Some r \<Rightarrow>
                       if r > threshold then (''CRITICAL'', [failed_rate_reason F r threshold])
                       else (''HEALTHY'', [])
                   | None \<Rightarrow> (''HEALTHY'', []))
      in write_check_policy F (critical_write_checks rls) start)"

definition severity_order :: "(string \<times> nat) list" where
  "severity_order = [(''HEALTHY'', 0), (''WARNING'', 1), (''CRITICAL'', 2)]"

text \<open>\<^verbatim>\<open>severity_order.get(s, 0)\<close>\<close>

definition severity :: "string \<Rightarrow> nat" where
  "severity s = (case map_of severity_order s of None \<Rightarrow> 0 | Some n \<Rightarrow> n)"

definition upper_char :: "char \<Rightarrow> char" where
  "upper_char c =
     (case map_of (zip ''abcdefghijklmnopqrstuvwxyz'' ''ABCDEFGHIJKLMNOPQRSTUVWXYZ'') c of
        None \<Rightarrow> c | Some u \<Rightarrow> u)"

definition py_upper :: "string \<Rightarrow> string" where
  "py_upper s = map upper_char s"

text \<open>
  Lines 385 to 387. \<^verbatim>\<open>.upper()\<close> is a method of str: a truthy status of another type
  raises AttributeError.
\<close>

definition model_status :: "dict \<Rightarrow> error + string" where
  "model_status model_analysis =
     (case py_or (dict_get model_analysis ''status'') (JStr ''WARNING'') of
        JStr s \<Rightarrow>
          Inr (if map_of severity_order (py_upper s) = None then ''WARNING'' else py_upper s)
      | _ \<Rightarrow> Inl AttributeError)"

text \<open>Line 388.\<close>

definition merge_status :: "string \<Rightarrow> string \<Rightarrow> string" where
  "merge_status model_st deterministic_st =
     (if severity model_st \<ge> severity deterministic_st then model_st else deterministic_st)"

text \<open>\<^verbatim>\<open>list(v)\<close>: a str gives its characters, a dict its keys.\<close>

definition py_list :: "json \<Rightarrow> error + json list" where
  "py_list v =
     (case v of
        JArr xs \<Rightarrow> Inr xs
      | JStr s \<Rightarrow> Inr (map (\<lambda>c. JStr [c]) s)
      | JObj d \<Rightarrow> Inr (map (\<lambda>kv. JStr (fst kv)) d)
      | _ \<Rightarrow> Inl TypeError)"

text \<open>The values \<^verbatim>\<open>list(v)\<close> and \<^verbatim>\<open>for x in v\<close> accept.\<close>

fun is_iterable :: "json \<Rightarrow> bool" where
  "is_iterable (JArr xs) = True"
| "is_iterable (JStr s) = True"
| "is_iterable (JObj d) = True"
| "is_iterable _ = False"

fun join :: "string \<Rightarrow> string list \<Rightarrow> string" where
  "join sep [] = []"
| "join sep [x] = x"
| "join sep (x # y # ys) = x @ sep @ join sep (y # ys)"

definition policy_finding :: "string list \<Rightarrow> string" where
  "policy_finding reasons =
     ''Deterministic policy: '' @ join ''; '' reasons @ ''. Likely cause: rate limiting (429).''"

definition apply_status_policy ::
  "fmt \<Rightarrow> dict \<Rightarrow> rate_limit_signals \<Rightarrow> string \<Rightarrow> error + analysis" where
  "apply_status_policy F model_analysis rls profile =
     (let (det, reasons) = deterministic_policy F rls profile in
      bnd (model_status model_analysis) (\<lambda>ms.
      let final = merge_status ms det in
      bnd (if det = ''CRITICAL'' \<and> final = ''CRITICAL'' \<and> reasons \<noteq> [] then
             bnd (py_list (dict_get_or model_analysis ''findings'' (JArr []))) (\<lambda>fs.
               Inr (AList.update ''findings'' (JArr (fs @ [JStr (policy_finding reasons)]))
                      model_analysis))
           else Inr model_analysis) (\<lambda>fields.
      Inr \<lparr>model_fields = fields, status = final, deterministic_status = det,
            deterministic_reasons = reasons, rate_limit_signals = rls\<rparr>)))"

section \<open>Highlights: \<^verbatim>\<open>extract_k6_highlights\<close>\<close>

record highlights =
  http_req_duration_p95_ms :: "rat option"
  hl_http_req_failed_rate :: "rat option"
  checks_pass_rate :: "rat option"
  iterations :: "rat option"
  vus_max :: "rat option"

text \<open>The inner function \<^verbatim>\<open>metric_value\<close>, with the \<^verbatim>\<open>metrics\<close> it closes over.\<close>

definition metric_value :: "json \<Rightarrow> string \<Rightarrow> string \<Rightarrow> error + rat option" where
  "metric_value metrics metric_name field =
     bnd (py_get_or metrics metric_name (JObj [])) (\<lambda>metric.
     bnd (py_get metric ''values'') (\<lambda>vals.
     let v1 = (case vals of JObj vd \<Rightarrow> dict_get vd field | _ \<Rightarrow> JNull) in
     bnd (if v1 = JNull \<and> is_dict metric then py_get metric field else Inr v1) (\<lambda>v.
       Inr (if is_number v then Some (num_of v) else None))))"

text \<open>\<^verbatim>\<open>a or b\<close> on two results of \<^verbatim>\<open>metric_value\<close>: a float is truthy unless it is zero.\<close>

definition float_truthy :: "rat option \<Rightarrow> bool" where
  "float_truthy a = (case a of None \<Rightarrow> False | Some x \<Rightarrow> x \<noteq> 0)"

definition metric_or :: "error + rat option \<Rightarrow> error + rat option \<Rightarrow> error + rat option" where
  "metric_or a b = bnd a (\<lambda>x. if float_truthy x then Inr x else b)"

definition extract_k6_highlights :: "json \<Rightarrow> error + highlights" where
  "extract_k6_highlights summary =
     (let metrics = (case summary of JObj d \<Rightarrow> dict_get_or d ''metrics'' (JObj []) | _ \<Rightarrow> JObj []) in
      bnd (metric_value metrics ''http_req_duration'' ''p(95)'') (\<lambda>p95.
      bnd (metric_or (metric_value metrics ''http_req_failed'' ''rate'')
                     (metric_value metrics ''http_req_failed'' ''value'')) (\<lambda>failed.
      bnd (metric_or (metric_value metrics ''checks'' ''rate'')
                     (metric_value metrics ''checks'' ''value'')) (\<lambda>checks.
      bnd (metric_value metrics ''iterations'' ''count'') (\<lambda>iters.
      bnd (metric_value metrics ''vus_max'' ''value'') (\<lambda>vus.
        Inr \<lparr>http_req_duration_p95_ms = p95, hl_http_req_failed_rate = failed,
              checks_pass_rate = checks, iterations = iters, vus_max = vus\<rparr>))))))"

section \<open>The time window: \<^verbatim>\<open>parse_time_window\<close>\<close>

text \<open>
  An aware UTC datetime is its POSIX timestamp in seconds. \<^verbatim>\<open>datetime.fromtimestamp\<close> is
  the standard library's: the parameter \<open>fromtimestamp\<close>, which may raise for an epoch it
  cannot represent. \<open>now\<close> is what \<^verbatim>\<open>utc_now()\<close> returns when it is called.
\<close>

type_synonym datetime = rat

definition parse_time_window ::
  "(rat \<Rightarrow> error + datetime) \<Rightarrow> datetime \<Rightarrow> dict \<Rightarrow> int \<Rightarrow> error + datetime \<times> datetime" where
  "parse_time_window fromtimestamp now metadata fallback_minutes =
     (let start_epoch = dict_get metadata ''start_epoch'';
          end_epoch = dict_get metadata ''end_epoch''
      in if is_number start_epoch \<and> is_number end_epoch \<and> num_of end_epoch > num_of start_epoch
         then bnd (fromtimestamp (num_of start_epoch)) (\<lambda>s.
              bnd (fromtimestamp (num_of end_epoch)) (\<lambda>e. Inr (s, e)))
         else Inr (now - 60 * of_int fallback_minutes, now))"

section \<open>The source collectors\<close>

text \<open>
  What a call through \<^verbatim>\<open>requests\<close> gives: the decoded JSON body of the response, or a
  \<^verbatim>\<open>requests.RequestException\<close> (connection error, timeout, error status, undecodable
  body) with its message. The collectors catch that exception and no other.
\<close>

datatype 'a net = Response 'a | RequestException string

record health =
  health_status :: string
  health_error :: string

definition DEFAULT_PROM_QUERIES :: "(string \<times> string) list" where
  "DEFAULT_PROM_QUERIES =
     [(''request_rate_rps'', ''sum(rate(http_requests_total[1m]))''),
      (''error_rate_ratio'',
       ''sum(rate(http_requests_total{status=~\"5..\"}[1m])) / clamp_min(sum(rate(http_requests_total[1m])), 1)''),
      (''p95_latency_seconds'',
       ''histogram_quantile(0.95, sum by (le) (rate(http_request_duration_seconds_bucket[5m])))''),
      (''active_websockets'', ''sanctum_active_websockets''),
      (''ws_connections_total'', ''sanctum_websocket_connections_total''),
      (''ws_backpressure_drops_5m'', ''increase(sanctum_websocket_backpressure_drops_total[5m])''),
      (''db_p95_seconds'',
       ''histogram_quantile(0.95, sum by (le) (rate(sanctum_database_query_latency_seconds_bucket[5m])))''),
      (''message_throughput_rps'', ''sum(rate(sanctum_message_throughput_total[1m]))'')]"

record prom_entry =
  prom_expr :: string
  range_data :: "json option"
  instant_data :: "json option"
  query_error :: "string option"

record prom_payload =
  prom_window :: "string \<times> string"
  prom_queries :: "(string \<times> prom_entry) list"

text \<open>
  The loop of \<^verbatim>\<open>collect_prometheus\<close>. \<open>range_q\<close> and \<open>instant_q\<close> are the outcomes of
  \<^verbatim>\<open>prom_query_range\<close> and \<^verbatim>\<open>prom_query_instant\<close> for an expression, over the window
  of the run.
\<close>

fun collect_prometheus_loop ::
  "(string \<Rightarrow> json net) \<Rightarrow> (string \<Rightarrow> json net) \<Rightarrow> (string \<times> string) list
     \<Rightarrow> (string \<times> prom_entry) list \<times> health \<Rightarrow> error + (string \<times> prom_entry) list \<times> health" where
  "collect_prometheus_loop range_q instant_q [] acc = Inr acc"
| "collect_prometheus_loop range_q instant_q ((name, ex) # rest) (qs, h) =
     (let failed = (\<lambda>exc.
            collect_prometheus_loop range_q instant_q rest
              (AList.update name \<lparr>prom_expr = ex, range_data = None, instant_data = None,
                                   query_error = Some exc\<rparr> qs,
               \<lparr>health_status = ''degraded'',
                health_error = ''Prometheus query failure: '' @ exc\<rparr>))
      in case range_q ex of
           RequestException exc \<Rightarrow> failed exc
         | Response rd \<Rightarrow>
             (case instant_q ex of
                RequestException exc \<Rightarrow> failed exc
              | Response idata \<Rightarrow>
                  bnd (py_get_or rd ''data'' (JObj [])) (\<lambda>r.
                  bnd (py_get_or idata ''data'' (JObj [])) (\<lambda>i.
                    collect_prometheus_loop range_q instant_q rest
                      (AList.update name \<lparr>prom_expr = ex, range_data = Some r,
                                           instant_data = Some i, query_error = None\<rparr> qs,
                       h)))))"

definition collect_prometheus ::
  "(string \<Rightarrow> json net) \<Rightarrow> (string \<Rightarrow> json net) \<Rightarrow> string \<times> string
     \<Rightarrow> error + prom_payload \<times> health" where
  "collect_prometheus range_q instant_q window =
     bnd (collect_prometheus_loop range_q instant_q DEFAULT_PROM_QUERIES
            ([], \<lparr>health_status = ''ok'', health_error = []\<rparr>)) (\<lambda>(qs, h).
       Inr (\<lparr>prom_window = window, prom_queries = qs\<rparr>, h))"

text \<open>
  \<^verbatim>\<open>_loki_query_range\<close> on the decoded response: every stream's values of length two.
  An entry has no category yet (here the empty string); the caller sets it.
\<close>

fun loki_values_loop :: "json \<Rightarrow> json list \<Rightarrow> loki_entry list \<Rightarrow> error + loki_entry list" where
  "loki_values_loop lbls [] acc = Inr acc"
| "loki_values_loop lbls (v # vs) acc =
     bnd (py_list v) (\<lambda>xs.
       case xs of
         [ts_ns, log_line] \<Rightarrow>
           loki_values_loop lbls vs
             (acc @ [\<lparr>timestamp_ns = ts_ns, line = log_line, labels = lbls, category = []\<rparr>])
       | _ \<Rightarrow> loki_values_loop lbls vs acc)"

fun loki_streams_loop :: "json list \<Rightarrow> loki_entry list \<Rightarrow> error + loki_entry list" where
  "loki_streams_loop [] acc = Inr acc"
| "loki_streams_loop (stream # rest) acc =
     bnd (py_get_or stream ''stream'' (JObj [])) (\<lambda>lbls.
     bnd (py_get_or stream ''values'' (JArr [])) (\<lambda>vals.
     bnd (py_list vals) (\<lambda>vs.
     bnd (loki_values_loop lbls vs acc) (\<lambda>acc'.
       loki_streams_loop rest acc'))))"

definition loki_query_range :: "json \<Rightarrow> error + loki_entry list" where
  "loki_query_range response =
     bnd (py_get_or response ''data'' (JObj [])) (\<lambda>data.
     bnd (py_get_or data ''result'' (JArr [])) (\<lambda>result.
     bnd (py_list result) (\<lambda>streams. loki_streams_loop streams [])))"

definition severity_query :: string where
  "severity_query = ''{container=~\".+\"} |~ \"(?i)(error|warn|panic|fatal)\"''"

definition rate_limit_query :: string where
  "rate_limit_query = ''{container=~\".+\"} |= \"request processed\" |= \"status=429\"''"

text \<open>The loop of \<^verbatim>\<open>collect_loki\<close> over its two queries.\<close>

fun collect_loki_loop ::
  "(string \<Rightarrow> json net) \<Rightarrow> (string \<times> string) list \<Rightarrow> loki_query list \<times> loki_entry list \<times> health
     \<Rightarrow> error + loki_query list \<times> loki_entry list \<times> health" where
  "collect_loki_loop loki_q [] acc = Inr acc"
| "collect_loki_loop loki_q ((name, query) # rest) (qs, es, h) =
     (let continue = (\<lambda>part h'.
            collect_loki_loop loki_q rest
              (qs @ [\<lparr>query_name = name, query_expr = query, entry_count = length part\<rparr>],
               es @ map (\<lambda>e. e\<lparr>category := name\<rparr>) part, h'))
      in case loki_q query of
           RequestException exc \<Rightarrow>
             continue [] \<lparr>health_status = ''degraded'',
                          health_error = ''Loki query failure: '' @ exc\<rparr>
         | Response resp \<Rightarrow> bnd (loki_query_range resp) (\<lambda>part. continue part h))"

definition collect_loki :: "(string \<Rightarrow> json net) \<Rightarrow> string \<times> string \<Rightarrow> error + loki_payload \<times> health" where
  "collect_loki loki_q window =
     bnd (collect_loki_loop loki_q
            [(''severity'', severity_query), (''rate_limit'', rate_limit_query)]
            ([], [], \<lparr>health_status = ''ok'', health_error = []\<rparr>)) (\<lambda>(qs, es, h).
       Inr (\<lparr>loki_window = window, loki_queries = qs, entries = es\<rparr>, h))"

text \<open>
  \<^verbatim>\<open>read_k6_summary\<close>. \<open>summary_json\<close> is what \<^verbatim>\<open>read_json_file(summary_path, {})\<close>
  returns: the decoded file, or the empty dict when the file is missing or is not JSON.
\<close>

definition read_k6_summary :: "string \<Rightarrow> json \<Rightarrow> json \<times> health" where
  "read_k6_summary run_dir summary_json =
     (summary_json,
      if truthy summary_json then \<lparr>health_status = ''ok'', health_error = []\<rparr>
      else \<lparr>health_status = ''degraded'',
            health_error = ''Missing or invalid '' @ run_dir @ ''/summary.json''\<rparr>)"

section \<open>The assessment: \<^verbatim>\<open>parse_model_json\<close>, \<^verbatim>\<open>call_ollama\<close>, \<^verbatim>\<open>default_ai_analysis\<close>\<close>

text \<open>
  \<^verbatim>\<open>json.loads\<close> is the parameter \<open>loads\<close> (\<open>None\<close> for JSONDecodeError). The pattern
  \<^verbatim>\<open>\{[\s\S]*\}\<close> matches from the first opening brace to the last closing brace after it.
\<close>

definition py_strip :: "string \<Rightarrow> string" where
  "py_strip s = rev (dropWhile is_space (rev (dropWhile is_space s)))"

definition brace_span :: "string \<Rightarrow> string option" where
  "brace_span s =
     (let from_open = dropWhile (\<lambda>c. c \<noteq> CHR ''{'') s;
          to_close = rev (dropWhile (\<lambda>c. c \<noteq> CHR ''}'') (rev from_open))
      in if length to_close \<ge> 2 then Some to_close else None)"

definition parse_model_json :: "(string \<Rightarrow> json option) \<Rightarrow> json \<Rightarrow> error + json" where
  "parse_model_json loads raw =
     (case raw of
        JStr raw_text \<Rightarrow>
          (let t = py_strip raw_text in
           if t = [] then Inr (JObj [])
           else case loads t of
                  Some v \<Rightarrow> Inr v
                | None \<Rightarrow>
                    (case brace_span t of
                       None \<Rightarrow> Inr (JObj [])
                     | Some m \<Rightarrow> (case loads m of Some v \<Rightarrow> Inr v | None \<Rightarrow> Inr (JObj []))))
      | _ \<Rightarrow> Inl AttributeError)"

definition call_ollama :: "(string \<Rightarrow> json option) \<Rightarrow> json net \<Rightarrow> error + json \<times> health" where
  "call_ollama loads outcome =
     (case outcome of
        RequestException exc \<Rightarrow>
          Inr (JObj [], \<lparr>health_status = ''degraded'',
                         health_error = ''Ollama request failure: '' @ exc\<rparr>)
      | Response payload \<Rightarrow>
          bnd (py_get_or payload ''response'' (JStr [])) (\<lambda>raw.
          bnd (parse_model_json loads raw) (\<lambda>parsed.
            Inr (parsed,
                 if truthy parsed then \<lparr>health_status = ''ok'', health_error = []\<rparr>
                 else \<lparr>health_status = ''degraded'',
                       health_error = ''Ollama returned non-JSON response''\<rparr>))))"

definition opt_json :: "rat option \<Rightarrow> json" where
  "opt_json x = (case x of None \<Rightarrow> JNull | Some v \<Rightarrow> JNum v)"

definition highlights_json :: "highlights \<Rightarrow> json" where
  "highlights_json hl =
     JObj [(''http_req_duration_p95_ms'', opt_json (http_req_duration_p95_ms hl)),
           (''http_req_failed_rate'', opt_json (hl_http_req_failed_rate hl)),
           (''checks_pass_rate'', opt_json (checks_pass_rate hl)),
           (''iterations'', opt_json (iterations hl)),
           (''vus_max'', opt_json (vus_max hl))]"

definition health_errors :: "(string \<times> health) list \<Rightarrow> string list" where
  "health_errors health_map =
     map (\<lambda>(k, v). k @ '': '' @ health_error v)
       (filter (\<lambda>(k, v). health_status v \<noteq> ''ok'' \<and> health_error v \<noteq> []) health_map)"

definition default_ai_analysis :: "string \<Rightarrow> (string \<times> health) list \<Rightarrow> highlights \<Rightarrow> dict" where
  "default_ai_analysis profile health_map hl =
     (let errors = health_errors health_map in
      [(''status'', JStr (if errors \<noteq> [] then ''WARNING'' else ''HEALTHY'')),
       (''summary'', JStr (''Fallback analysis for '' @ profile @ '' profile. Partial data was used.'')),
       (''findings'',
        JArr (map JStr (if errors \<noteq> [] then errors
                        else [''No major data-source failures detected during report generation.'']))),
       (''bottlenecks'', JArr []),
       (''likely_causes'', JArr []),
       (''next_actions'',
        JArr [JStr ''Verify Prometheus/Loki/Ollama connectivity before next run.'',
              JStr ''Review k6 summary metrics in summary.json for precise thresholds.'']),
       (''confidence'', JNum (if errors \<noteq> [] then 35 / 100 else 6 / 10)),
       (''k6_highlights'', highlights_json hl)])"

section \<open>The report renderers\<close>

definition newline :: string where
  "newline = [CHR 0x0A]"

text \<open>The lines of a document, each ended by a newline.\<close>

definition lines_nl :: "string list \<Rightarrow> string" where
  "lines_nl ls = concat (map (\<lambda>l. l @ newline) ls)"

text \<open>\<^verbatim>\<open>html.escape(s)\<close>, with its default \<^verbatim>\<open>quote=True\<close>.\<close>

definition escape_char :: "char \<Rightarrow> string" where
  "escape_char c =
     (if c = CHR ''&'' then ''&amp;''
      else if c = CHR ''<'' then ''&lt;''
      else if c = CHR ''>'' then ''&gt;''
      else if c = CHR 0x22 then ''&quot;''
      else if c = CHR 0x27 then ''&#x27;''
      else [c])"

definition html_escape :: "string \<Rightarrow> string" where
  "html_escape s = concat (map escape_char s)"

text \<open>\<^verbatim>\<open>str(n)\<close> of a count.\<close>

fun str_nat :: "nat \<Rightarrow> string" where
  "str_nat n =
     (if n < 10 then [char_of (48 + n)] else str_nat (n div 10) @ [char_of (48 + n mod 10)])"

text \<open>\<^verbatim>\<open>str(v)\<close>, as an f-string applies it: a str is itself.\<close>

definition py_str :: "fmt \<Rightarrow> json \<Rightarrow> string" where
  "py_str F v = (case v of JStr s \<Rightarrow> s | _ \<Rightarrow> fmt_repr F v)"

definition format_float :: "fmt \<Rightarrow> rat option \<Rightarrow> nat \<Rightarrow> string" where
  "format_float F v digits = (case v of Some x \<Rightarrow> fmt_fixed F digits x | None \<Rightarrow> ''N/A'')"

text \<open>
  \<^verbatim>\<open>analysis.get(key, []) or []\<close>, and the items a loop over it visits: TypeError when the
  value is truthy and not iterable.
\<close>

definition list_field :: "analysis \<Rightarrow> string \<Rightarrow> error + json list" where
  "list_field a key = py_list (py_or (dict_get_or (model_fields a) key (JArr [])) (JArr []))"

text \<open>\<^verbatim>\<open>x or default\<close> on a str.\<close>

definition str_or :: "string \<Rightarrow> string \<Rightarrow> string" where
  "str_or x dflt = (if x = [] then dflt else x)"

definition fmt_rate_limit_checks_md :: "fmt \<Rightarrow> rate_limit_signals \<Rightarrow> string" where
  "fmt_rate_limit_checks_md F rls =
     (if critical_write_checks rls = [] then ''- None''
      else join newline
             (map (\<lambda>c. ''- '' @ check_name c @ '': '' @ fmt_percent F 1 (pass_rate c))
                (critical_write_checks rls)))"

definition list_items :: "string list \<Rightarrow> string" where
  "list_items items = str_or (concat (map (\<lambda>i. ''<li>'' @ html_escape i @ ''</li>'') items)) ''<li>None</li>''"

definition render_report_html ::
  "fmt \<Rightarrow> string \<Rightarrow> string \<Rightarrow> string \<Rightarrow> dict \<Rightarrow> (string \<times> health) list \<Rightarrow> highlights
     \<Rightarrow> analysis \<Rightarrow> loki_payload \<Rightarrow> error + string" where
  "render_report_html F generated run_dir profile metadata health_map hl analysis loki =
     (let title = ''Sanctum AI Stress Report - '' @ profile;
          rows = map (\<lambda>(key, state).
                   ''<tr><td>'' @ html_escape key @ ''</td><td>'' @ html_escape (health_status state)
                   @ ''</td>'' @ ''<td>'' @ html_escape (health_error state) @ ''</td></tr>'')
                 health_map
      in
      bnd (list_field analysis ''findings'') (\<lambda>findings.
      bnd (list_field analysis ''next_actions'') (\<lambda>next_actions.
      let finding_items = list_items (map (py_str F) findings);
          action_items = list_items (map (py_str F) next_actions);
          loki_lines = take 20 (entries loki);
          loki_block = str_or (join newline (map (\<lambda>e. html_escape (py_str F (line e))) loki_lines))
                         ''No matching log lines.'';
          rls = rate_limit_signals analysis;
          rate_limit_rows = map (\<lambda>c.
                   ''<tr><td>'' @ html_escape (check_name c) @ ''</td><td>''
                   @ html_escape (fmt_percent F 1 (pass_rate c)) @ ''</td></tr>'')
                 (critical_write_checks rls);
          rate_limit_table =
            (if rate_limit_rows \<noteq> [] then
               ''<table><thead><tr><th>Check</th><th>Pass rate</th></tr></thead><tbody>''
               @ concat rate_limit_rows @ ''</tbody></table>''
             else ''<p>No canonical write checks in summary.</p>'');
          rate_limit_endpoint_list = list_items (likely_rate_limited_endpoints rls);
          det_reasons_block = list_items (deterministic_reasons analysis);
          summary_text = py_str F (dict_get_or (model_fields analysis) ''summary''
                                     (JStr ''No summary provided''));
          start_utc = py_str F (dict_get_or metadata ''start_utc'' (JStr ''N/A''));
          end_utc = py_str F (dict_get_or metadata ''end_utc'' (JStr ''N/A''))
      in Inr (lines_nl
       [''<!doctype html>'',
        ''<html lang=\"en\">'',
        ''<head>'',
        ''  <meta charset=\"utf-8\" />'',
        ''  <meta name=\"viewport\" content=\"width=device-width, initial-scale=1\" />'',
        ''  <title>'' @ html_escape title @ ''</title>'',
        ''  <style>'',
        ''    :root {'',
        ''      --bg: #0b1020;'',
        ''      --panel: #121a2f;'',
        ''      --text: #ecf2ff;'',
        ''      --muted: #9fb1d6;'',
        ''      --good: #3ccf91;'',
        ''      --warn: #ffb020;'',
        ''      --bad: #ff5d6c;'',
        ''      --edge: #293a66;'',
        ''    }'',
        ''    body { margin:0; font-family: ui-sans-serif, system-ui, -apple-system, Segoe UI, sans-serif; background: radial-gradient(circle at top right, #16203d, var(--bg)); color: var(--text); }'',
        ''    main { max-width: 1120px; margin: 0 auto; padding: 28px 16px 40px; }'',
        ''    .grid { display:grid; grid-template-columns: repeat(auto-fit, minmax(260px, 1fr)); gap: 12px; }'',
        ''    .card { background: var(--panel); border: 1px solid var(--edge); border-radius: 12px; padding: 14px; }'',
        ''    h1, h2 { margin: 0 0 10px; }'',
        ''    p { margin: 6px 0; color: var(--muted); }'',
        ''    table { width:100%; border-collapse: collapse; }'',
        ''    td, th { border-bottom: 1px solid var(--edge); padding: 8px; text-align: left; font-size: 14px; }'',
        ''    pre { white-space: pre-wrap; background:#0a0f1e; border:1px solid var(--edge); padding:12px; border-radius:10px; max-height:320px; overflow:auto; }'',
        ''    .status-HEALTHY { color: var(--good); }'',
        ''    .status-WARNING { color: var(--warn); }'',
        ''    .status-CRITICAL { color: var(--bad); }'',
        ''  </style>'',
        ''</head>'',
        ''<body>'',
        ''  <main>'',
        ''    <h1>'' @ html_escape title @ ''</h1>'',
        ''    <p>Generated: '' @ html_escape generated @ '' | Run dir: '' @ html_escape run_dir @ ''</p>'',
        [],
        ''    <div class=\"grid\">'',
        ''      <section class=\"card\"><h2>Status</h2><p class=\"status-'' @ html_escape (status analysis) @ ''\"><strong>'' @ html_escape (status analysis) @ ''</strong></p><p>'' @ html_escape summary_text @ ''</p></section>'',
        ''      <section class=\"card\"><h2>Run Metadata</h2><p>Profile: '' @ html_escape profile @ ''</p><p>Start: '' @ html_escape start_utc @ ''</p><p>End: '' @ html_escape end_utc @ ''</p></section>'',
        ''      <section class=\"card\"><h2>k6 Highlights</h2><p>P95 latency (ms): '' @ format_float F (http_req_duration_p95_ms hl) 2 @ ''</p><p>HTTP failed rate: '' @ format_float F (hl_http_req_failed_rate hl) 5 @ ''</p><p>Checks pass rate: '' @ format_float F (checks_pass_rate hl) 5 @ ''</p></section>'',
        ''    </div>'',
        [],
        ''    <section class=\"card\" style=\"margin-top:12px\"><h2>Data Source Health</h2><table><thead><tr><th>Source</th><th>Status</th><th>Error</th></tr></thead><tbody>'' @ concat rows @ ''</tbody></table></section>'',
        [],
        ''    <section class=\"grid\" style=\"margin-top:12px\">'',
        ''      <div class=\"card\"><h2>Findings</h2><ul>'' @ finding_items @ ''</ul></div>'',
        ''      <div class=\"card\"><h2>Next Actions</h2><ul>'' @ action_items @ ''</ul></div>'',
        ''    </section>'',
        [],
        ''    <section class=\"card\" style=\"margin-top:12px\"><h2>Deterministic Status Policy</h2><p><strong>'' @ html_escape (deterministic_status analysis) @ ''</strong></p><ul>'' @ det_reasons_block @ ''</ul></section>'',
        [],
        ''    <section class=\"card\" style=\"margin-top:12px\"><h2>Rate Limit Signals</h2><p>Loki 429/rate-limit sample count: <strong>'' @ str_nat (loki_rate_limit_entry_count rls) @ ''</strong></p>'' @ rate_limit_table @ ''<p><strong>Likely rate-limited endpoints:</strong></p><ul>'' @ rate_limit_endpoint_list @ ''</ul></section>'',
        [],
        ''    <section class=\"card\" style=\"margin-top:12px\"><h2>Loki Sample (Errors/Warnings and Rate-Limit 429s)</h2><pre>'' @ loki_block @ ''</pre></section>'',
        ''  </main>'',
        ''</body>'',
        ''</html>'']))))"

definition section_items :: "string list \<Rightarrow> string" where
  "section_items items =
     (if items = [] then ''- None'' else join newline (map (\<lambda>i. ''- '' @ i) items))"

definition render_report_markdown ::
  "fmt \<Rightarrow> string \<Rightarrow> string \<Rightarrow> string \<Rightarrow> dict \<Rightarrow> (string \<times> health) list \<Rightarrow> highlights
     \<Rightarrow> analysis \<Rightarrow> error + string" where
  "render_report_markdown F generated run_dir profile metadata health_map hl analysis =
     (let health_lines = join newline
            (map (\<lambda>(name, state).
                    ''- `'' @ name @ ''`: **'' @ health_status state @ ''**''
                    @ (if health_error state \<noteq> [] then '' - '' @ health_error state else []))
               health_map);
          rls = rate_limit_signals analysis;
          summary_text = py_str F (dict_get_or (model_fields analysis) ''summary''
                                     (JStr ''No summary provided''));
          start_utc = py_str F (dict_get_or metadata ''start_utc'' (JStr ''N/A''));
          end_utc = py_str F (dict_get_or metadata ''end_utc'' (JStr ''N/A''))
      in
      bnd (list_field analysis ''findings'') (\<lambda>fs.
      bnd (list_field analysis ''bottlenecks'') (\<lambda>bs.
      bnd (list_field analysis ''likely_causes'') (\<lambda>cs.
      bnd (list_field analysis ''next_actions'') (\<lambda>acts.
      let findings = map (py_str F) fs; bottlenecks = map (py_str F) bs;
          causes = map (py_str F) cs; actions = map (py_str F) acts
      in Inr (lines_nl
       [''# Sanctum AI Stress Report ('' @ profile @ '')'',
        [],
        ''- Generated: '' @ generated,
        ''- Run Dir: `'' @ run_dir @ ''`'',
        ''- Status: **'' @ status analysis @ ''**'',
        ''- Summary: '' @ summary_text,
        [],
        ''## k6 Highlights'',
        [],
        ''- P95 latency (ms): '' @ format_float F (http_req_duration_p95_ms hl) 2,
        ''- HTTP failed rate: '' @ format_float F (hl_http_req_failed_rate hl) 5,
        ''- Checks pass rate: '' @ format_float F (checks_pass_rate hl) 5,
        ''- Iterations: '' @ format_float F (iterations hl) 0,
        ''- Max VUs: '' @ format_float F (vus_max hl) 0,
        [],
        ''## Run Window'',
        [],
        ''- Profile: `'' @ profile @ ''`'',
        ''- Start: `'' @ start_utc @ ''`'',
        ''- End: `'' @ end_utc @ ''`'',
        [],
        ''## Deterministic Status Policy Result'',
        [],
        ''- **Status:** '' @ deterministic_status analysis,
        ''- **Reasons:** '' @ section_items (deterministic_reasons analysis),
        [],
        ''## Rate Limit Signals'',
        [],
        ''- Loki 429/rate-limit entry count: '' @ str_nat (loki_rate_limit_entry_count rls),
        ''- Critical write checks (pass rate): '' @ fmt_rate_limit_checks_md F rls,
        ''- Likely rate-limited endpoints: '' @ section_items (likely_rate_limited_endpoints rls),
        [],
        ''## Data Source Health'',
        [],
        health_lines,
        [],
        ''## Findings'',
        section_items findings,
        [],
        ''## Bottlenecks'',
        section_items bottlenecks,
        [],
        ''## Likely Causes'',
        section_items causes,
        [],
        ''## Next Actions'',
        section_items actions]))))))"

text \<open>The inner function \<^verbatim>\<open>append_list\<close> of \<^verbatim>\<open>render_report_text\<close>, as the lines it adds.\<close>

definition append_list :: "string \<Rightarrow> string list \<Rightarrow> string list" where
  "append_list title items =
     [[], title] @ (if items = [] then [''- None''] else map (\<lambda>i. ''- '' @ i) items)"

definition render_report_text ::
  "fmt \<Rightarrow> string \<Rightarrow> string \<Rightarrow> string \<Rightarrow> dict \<Rightarrow> (string \<times> health) list \<Rightarrow> highlights
     \<Rightarrow> analysis \<Rightarrow> error + string" where
  "render_report_text F generated run_dir profile metadata health_map hl analysis =
     (let rls = rate_limit_signals analysis;
          head_lines =
            [''SANCTUM AI STRESS REPORT ('' @ profile @ '')'',
             replicate 48 CHR ''='',
             ''Generated: '' @ generated,
             ''Run Dir: '' @ run_dir,
             ''Status: '' @ status analysis,
             ''Summary: '' @ py_str F (dict_get_or (model_fields analysis) ''summary''
                                         (JStr ''No summary provided'')),
             [],
             ''Deterministic Status Policy Result'',
             ''- Status: '' @ deterministic_status analysis]
            @ map (\<lambda>r. ''- '' @ r) (deterministic_reasons analysis)
            @ [[],
               ''Rate Limit Signals'',
               ''- Loki 429/rate-limit entry count: '' @ str_nat (loki_rate_limit_entry_count rls)]
            @ (if critical_write_checks rls = [] then [''- No canonical write checks in summary.'']
               else [])
            @ map (\<lambda>c. ''- '' @ check_name c @ '': '' @ fmt_percent F 1 (pass_rate c))
                (critical_write_checks rls)
            @ [''Likely rate-limited endpoints:'']
            @ map (\<lambda>ep. ''- '' @ ep) (likely_rate_limited_endpoints rls)
            @ (if likely_rate_limited_endpoints rls = [] then [''- None''] else [])
            @ [[],
               ''k6 Highlights'',
               ''- P95 latency (ms): '' @ format_float F (http_req_duration_p95_ms hl) 2,
               ''- HTTP failed rate: '' @ format_float F (hl_http_req_failed_rate hl) 5,
               ''- Checks pass rate: '' @ format_float F (checks_pass_rate hl) 5,
               ''- Iterations: '' @ format_float F (iterations hl) 0,
               ''- Max VUs: '' @ format_float F (vus_max hl) 0,
               [],
               ''Run Window'',
               ''- Profile: '' @ profile,
               ''- Start: '' @ py_str F (dict_get_or metadata ''start_utc'' (JStr ''N/A'')),
               ''- End: '' @ py_str F (dict_get_or metadata ''end_utc'' (JStr ''N/A'')),
               [],
               ''Data Source Health'']
            @ map (\<lambda>(name, state).
                     ''- '' @ name @ '': '' @ health_status state
                     @ (if health_error state \<noteq> [] then '' ('' @ health_error state @ '')'' else []))
                health_map
      in
      bnd (list_field analysis ''findings'') (\<lambda>fs.
      bnd (list_field analysis ''bottlenecks'') (\<lambda>bs.
      bnd (list_field analysis ''likely_causes'') (\<lambda>cs.
      bnd (list_field analysis ''next_actions'') (\<lambda>acts.
        Inr (lines_nl
               (head_lines
                @ append_list ''Findings'' (map (py_str F) fs)
                @ append_list ''Bottlenecks'' (map (py_str F) bs)
                @ append_list ''Likely Causes'' (map (py_str F) cs)
                @ append_list ''Next Actions'' (map (py_str F) acts))))))))"

section \<open>The pipeline: \<^verbatim>\<open>main\<close>\<close>

text \<open>
  One run for a resolved run directory (lines 813 to 872). Everything the run reads from
  outside is a field of \<open>env\<close>: the command line's profile, the run directory and its
  name, the two files as \<^verbatim>\<open>read_json_file(.., {})\<close> returns them, the outcome of each
  HTTP call, the clock readings (already formatted where the script only formats them) and
  the standard library's functions. What the run writes is the result: the two snapshots,
  the analysis record with the keys \<^verbatim>\<open>main\<close> adds, and the three reports. Failures of the
  file system while writing, the prompt text (it only goes into the HTTP call) and the
  index rebuilt at the end are not modelled.
\<close>

record env =
  args_profile :: string
  run_dir_str :: string
  run_dir_name :: string
  metadata_file :: json
  summary_file :: json
  prom_range_response :: "string \<Rightarrow> json net"
  prom_instant_response :: "string \<Rightarrow> json net"
  loki_response :: "string \<Rightarrow> json net"
  ollama_response :: "json net"
  loads :: "string \<Rightarrow> json option"
  str_float :: "string \<Rightarrow> rat option"
  timestamp_datetime :: "rat \<Rightarrow> error + datetime"
  isoformat :: "datetime \<Rightarrow> string"
  now_window :: datetime
  generated_at :: string
  generated_html :: string
  generated_md :: string
  generated_txt :: string
  formats :: fmt

record run_output =
  out_metadata :: dict
  out_metrics :: prom_payload
  out_logs :: loki_payload
  out_analysis :: analysis
  out_data_source_health :: "(string \<times> health) list"
  out_profile :: string
  out_run_dir :: string
  out_generated_at :: string
  out_html :: string
  out_md :: string
  out_txt :: string

text \<open>\<^verbatim>\<open>run_dir.name.split("-")[-1]\<close>\<close>

definition last_segment :: "string \<Rightarrow> string" where
  "last_segment s = rev (takeWhile (\<lambda>c. c \<noteq> CHR ''-'') (rev s))"

text \<open>\<^verbatim>\<open>d.setdefault(k, v)\<close>\<close>

definition dict_setdefault :: "dict \<Rightarrow> string \<Rightarrow> json \<Rightarrow> dict" where
  "dict_setdefault d k v = (if map_of d k = None then d @ [(k, v)] else d)"

text \<open>
  Line 815. The profile is whatever the metadata holds when the command line gives none;
  every later use of it but one accepts any value, and \<^verbatim>\<open>html.escape(profile)\<close> raises
  AttributeError unless it is a str. The model takes the run to fail at once for such a
  profile, whichever exception the run meets first.
\<close>

definition resolve_profile :: "env \<Rightarrow> dict \<Rightarrow> json" where
  "resolve_profile e metadata =
     (if args_profile e \<noteq> [] then JStr (args_profile e)
      else py_or (dict_get metadata ''profile'') (JStr (last_segment (run_dir_name e))))"

text \<open>Line 845 and the item assignments after it, which need a dict.\<close>

definition choose_analysis :: "json \<Rightarrow> dict \<Rightarrow> error + dict" where
  "choose_analysis model_analysis fallback =
     (if truthy model_analysis then
        (case model_analysis of JObj d \<Rightarrow> Inr d | _ \<Rightarrow> Inl TypeError)
      else Inr fallback)"

definition main :: "env \<Rightarrow> error + run_output" where
  "main e =
     (case metadata_file e of
        JObj md0 \<Rightarrow>
          (case resolve_profile e md0 of
             JStr profile \<Rightarrow>
               bnd (parse_time_window (timestamp_datetime e) (now_window e) md0 10) (\<lambda>(t_start, t_end).
               let window = (isoformat e t_start, isoformat e t_end);
                   metadata = dict_setdefault
                                (dict_setdefault
                                   (dict_setdefault md0 ''profile'' (JStr profile))
                                   ''start_utc'' (JStr (fst window)))
                                ''end_utc'' (JStr (snd window));
                   (summary, k6_health) = read_k6_summary (run_dir_str e) (summary_file e)
               in
               bnd (extract_k6_highlights summary) (\<lambda>hl.
               bnd (collect_prometheus (prom_range_response e) (prom_instant_response e) window)
                 (\<lambda>(prometheus_payload, prom_health).
               bnd (collect_loki (loki_response e) window) (\<lambda>(loki_data, loki_health).
               bnd (build_rate_limit_signals (str_float e) summary profile loki_data) (\<lambda>rls.
               bnd (call_ollama (loads e) (ollama_response e)) (\<lambda>(model_analysis, ollama_health).
               let health_map = [(''k6'', k6_health), (''prometheus'', prom_health),
                                 (''loki'', loki_health), (''ollama'', ollama_health)]
               in
               bnd (choose_analysis model_analysis (default_ai_analysis profile health_map hl))
                 (\<lambda>analysis0.
               bnd (apply_status_policy (formats e) analysis0 rls profile) (\<lambda>analysis.
               bnd (render_report_html (formats e) (generated_html e) (run_dir_str e) profile
                      metadata health_map hl analysis loki_data) (\<lambda>html.
               bnd (render_report_markdown (formats e) (generated_md e) (run_dir_str e) profile
                      metadata health_map hl analysis) (\<lambda>md.
               bnd (render_report_text (formats e) (generated_txt e) (run_dir_str e) profile
                      metadata health_map hl analysis) (\<lambda>txt.
                 Inr \<lparr>out_metadata = metadata, out_metrics = prometheus_payload,
                       out_logs = loki_data, out_analysis = analysis,
                       out_data_source_health = health_map, out_profile = profile,
                       out_run_dir = run_dir_str e, out_generated_at = generated_at e,
                       out_html = html, out_md = md, out_txt = txt\<rparr>)))))))))))
           | _ \<Rightarrow> Inl AttributeError)
      | _ \<Rightarrow> Inl AttributeError)"

section \<open>Basic facts\<close>

lemma bnd_simps:
  "bnd (Inl e) f = Inl e"
  "bnd (Inr v) f = f v"
  by (simp_all add: bnd_def)

section \<open>Pass rates of the check records\<close>

lemma update_set_cases:
  "(n, r) \<in> set (AList.update k v al) \<Longrightarrow> (n, r) = (k, v) \<or> (n, r) \<in> set al"
  by (induction al) (auto split: if_splits)

lemma check_record_rate:
  "check_record d = Inr r \<Longrightarrow>
     pass_rate r = (if passes r + fails r = 0 then 1 else passes r / (passes r + fails r))"
  by (auto simp: check_record_def Let_def split: if_splits)

lemma extract_checks_loop_rate:
  "extract_checks_loop cs acc = Inr res \<Longrightarrow>
   (\<forall>(n, r) \<in> set acc.
      pass_rate r = (if passes r + fails r = 0 then 1 else passes r / (passes r + fails r))) \<Longrightarrow>
   (n, r) \<in> set res \<Longrightarrow>
   pass_rate r = (if passes r + fails r = 0 then 1 else passes r / (passes r + fails r))"
proof (induction cs arbitrary: acc)
  case Nil
  then show ?case by auto
next
  case (Cons c cs)
  obtain name data where c: "c = (name, data)" by (cases c)
  show ?case
  proof (cases data)
    case (JObj d)
    with Cons.prems(1) c obtain r0 where r0: "check_record d = Inr r0"
      and rest: "extract_checks_loop cs (AList.update name r0 acc) = Inr res"
      by (auto simp: bnd_def split: sum.splits)
    have "\<forall>(n, r) \<in> set (AList.update name r0 acc).
            pass_rate r = (if passes r + fails r = 0 then 1 else passes r / (passes r + fails r))"
    proof (clarify)
      fix n' r'
      assume "(n', r') \<in> set (AList.update name r0 acc)"
      then have "(n', r') = (name, r0) \<or> (n', r') \<in> set acc" by (rule update_set_cases)
      then show "pass_rate r' = (if passes r' + fails r' = 0 then 1 else passes r' / (passes r' + fails r'))"
        using Cons.prems(2) check_record_rate[OF r0] by blast
    qed
    from Cons.IH[OF rest this Cons.prems(3)] show ?thesis .
  qed (use Cons c in auto)
qed

lemma extract_root_group_checks_rate:
  "extract_root_group_checks summary = Inr per_check \<Longrightarrow> (n, r) \<in> set per_check \<Longrightarrow>
   pass_rate r = (if passes r + fails r = 0 then 1 else passes r / (passes r + fails r))"
  unfolding extract_root_group_checks_def
  by (auto simp: bnd_def split: sum.splits json.splits dest: extract_checks_loop_rate)

text \<open>Every entry the loop appends copies a record of \<open>per_check\<close> under its own name.\<close>

lemma write_checks_loop_entries:
  "write_checks_loop pc names (cw, sc) = (cw', sc') \<Longrightarrow> w \<in> set cw' \<Longrightarrow>
   w \<in> set cw \<or>
   (\<exists>r. check_name w \<in> set names \<and> map_of pc (check_name w) = Some r \<and>
        passes w = passes r \<and> fails w = fails r \<and> pass_rate w = pass_rate r)"
proof (induction names arbitrary: cw sc)
  case Nil
  then show ?case by auto
next
  case (Cons name names)
  show ?case
  proof (cases "map_of pc name")
    case None
    with Cons.prems have "write_checks_loop pc names (cw, sc) = (cw', sc')" by simp
    from Cons.IH[OF this Cons.prems(2)] show ?thesis by auto
  next
    case (Some r)
    let ?w = "\<lparr>passes = passes r, fails = fails r, pass_rate = pass_rate r, check_name = name\<rparr>"
    from Cons.prems Some
    have "write_checks_loop pc names (cw @ [?w], if pass_rate r < 20 / 100 then sc @ [name] else sc)
            = (cw', sc')" by simp
    from Cons.IH[OF this Cons.prems(2)] Some show ?thesis by auto
  qed
qed

lemma build_rate_limit_signals_parts:
  assumes "build_rate_limit_signals fl summary profile loki = Inr rls"
  obtains per_check sc where
    "extract_root_group_checks summary = Inr per_check"
    "write_checks_loop per_check CANONICAL_WRITE_CHECKS ([], []) = (critical_write_checks rls, sc)"
    "likely_rate_limited_endpoints rls = endpoints_of sc"
    "resolve_threshold summary profile = Inr (http_req_failed_threshold rls)"
    "observed_failed_rate fl summary = Inr (http_req_failed_rate rls)"
    "loki_rate_limit_entry_count rls = length (filter (\<lambda>e. category e = ''rate_limit'') (entries loki))"
  using assms unfolding build_rate_limit_signals_def
  by (auto simp: bnd_def Let_def split: sum.splits prod.splits)

text \<open>
  Claim C3. Every check record derived from the summary's per-check counts, in the table
  \<^verbatim>\<open>_extract_root_group_checks\<close> returns and in the bundle's \<^verbatim>\<open>critical_write_checks\<close>,
  has \<open>pass_rate = passes / (passes + fails)\<close> when \<open>passes + fails > 0\<close> and
  \<open>pass_rate = 1\<close> when \<open>passes + fails = 0\<close>.
\<close>

theorem pass_rate_invariant:
  "(extract_root_group_checks summary = Inr per_check \<and> (name, r) \<in> set per_check \<longrightarrow>
      (passes r + fails r > 0 \<longrightarrow> pass_rate r = passes r / (passes r + fails r)) \<and>
      (passes r + fails r = 0 \<longrightarrow> pass_rate r = 1)) \<and>
   (build_rate_limit_signals fl summary profile loki = Inr rls \<and> w \<in> set (critical_write_checks rls) \<longrightarrow>
      (passes w + fails w > 0 \<longrightarrow> pass_rate w = passes w / (passes w + fails w)) \<and>
      (passes w + fails w = 0 \<longrightarrow> pass_rate w = 1))"
proof (intro conjI impI; (elim conjE)?)
  assume a: "extract_root_group_checks summary = Inr per_check" "(name, r) \<in> set per_check"
  note law = extract_root_group_checks_rate[OF a]
  { assume "passes r + fails r > 0" with law show "pass_rate r = passes r / (passes r + fails r)" by simp }
  { assume "passes r + fails r = 0" with law show "pass_rate r = 1" by simp }
next
  assume b: "build_rate_limit_signals fl summary profile loki = Inr rls" "w \<in> set (critical_write_checks rls)"
  from b(1) obtain pc sc where pc: "extract_root_group_checks summary = Inr pc"
    and loop: "write_checks_loop pc CANONICAL_WRITE_CHECKS ([], []) = (critical_write_checks rls, sc)"
    by (rule build_rate_limit_signals_parts)
  from write_checks_loop_entries[OF loop b(2)]
  obtain r' where r': "map_of pc (check_name w) = Some r'" "passes w = passes r'" "fails w = fails r'"
    "pass_rate w = pass_rate r'" by auto
  from r'(1) have "(check_name w, r') \<in> set pc" by (rule map_of_SomeD)
  note law = extract_root_group_checks_rate[OF pc this]
  { assume "passes w + fails w > 0" with law r' show "pass_rate w = passes w / (passes w + fails w)" by simp }
  { assume "passes w + fails w = 0" with law r' show "pass_rate w = 1" by simp }
qed

theorem pass_rate_invariant_witness:
  "extract_root_group_checks
     (JObj [(''root_group'', JObj [(''checks'', JObj
        [(''create post status 201'', JObj [(''passes'', JNum 5), (''fails'', JNum 95)]),
         (''comment status ok'', JObj [])])])])
     = Inr [(''create post status 201'', \<lparr>passes = 5, fails = 95, pass_rate = 1 / 20\<rparr>),
            (''comment status ok'', \<lparr>passes = 0, fails = 0, pass_rate = 1\<rparr>)] \<and>
   passes \<lparr>passes = 5, fails = 95, pass_rate = 1 / 20\<rparr>
     + fails \<lparr>passes = 5, fails = 95, pass_rate = 1 / 20\<rparr> > 0 \<and>
   pass_rate \<lparr>passes = 5, fails = 95, pass_rate = 1 / 20\<rparr> = 5 / (5 + 95) \<and>
   build_rate_limit_signals (\<lambda>s. None)
     (JObj [(''root_group'', JObj [(''checks'', JObj
        [(''create post status 201'', JObj [(''passes'', JNum 5), (''fails'', JNum 95)]),
         (''comment status ok'', JObj [])])])])
     ''low'' \<lparr>loki_window = ([], []), loki_queries = [], entries = []\<rparr>
     = Inr \<lparr>http_req_failed_rate = None, http_req_failed_threshold = 5 / 100,
             loki_rate_limit_entry_count = 0,
             critical_write_checks =
               [\<lparr>passes = 5, fails = 95, pass_rate = 1 / 20,
                   check_name = ''create post status 201''\<rparr>,
                \<lparr>passes = 0, fails = 0, pass_rate = 1, check_name = ''comment status ok''\<rparr>],
             likely_rate_limited_endpoints = [''POST /api/posts'']\<rparr> \<and>
   pass_rate \<lparr>passes = 0, fails = 0, pass_rate = 1, check_name = ''comment status ok''\<rparr> = 1"
proof -
  let ?S = "JObj [(''root_group'', JObj [(''checks'', JObj
        [(''create post status 201'', JObj [(''passes'', JNum 5), (''fails'', JNum 95)]),
         (''comment status ok'', JObj [])])])]"
  let ?r = "\<lparr>passes = 5, fails = 95, pass_rate = 1 / 20 :: rat\<rparr>"
  let ?w = "\<lparr>passes = 0, fails = 0, pass_rate = 1 :: rat, check_name = ''comment status ok''\<rparr>"
  let ?PC = "[(''create post status 201'', ?r),
              (''comment status ok'', \<lparr>passes = 0, fails = 0, pass_rate = 1\<rparr>)]"
  let ?L = "\<lparr>loki_window = ([], []), loki_queries = [], entries = []\<rparr>"
  let ?R = "\<lparr>http_req_failed_rate = None, http_req_failed_threshold = 5 / 100,
             loki_rate_limit_entry_count = 0,
             critical_write_checks =
               [\<lparr>passes = 5, fails = 95, pass_rate = 1 / 20,
                   check_name = ''create post status 201''\<rparr>, ?w],
             likely_rate_limited_endpoints = [''POST /api/posts'']\<rparr>"
  have h1: "extract_root_group_checks ?S = Inr ?PC" by code_simp
  have h2: "build_rate_limit_signals (\<lambda>s. None) ?S ''low'' ?L = Inr ?R" by code_simp
  show ?thesis
    using pass_rate_invariant[of ?S ?PC "''create post status 201''" ?r "\<lambda>s. None" "''low''" ?L ?R ?w]
      h1 h2 by simp
qed

section \<open>The status merge\<close>

lemma severity_levels:
  "severity ''HEALTHY'' = 0" "severity ''WARNING'' = 1" "severity ''CRITICAL'' = 2"
  by (simp_all add: severity_def severity_order_def)

lemma severity_2: "severity s \<ge> 2 \<Longrightarrow> s = ''CRITICAL''"
  by (auto simp: severity_def severity_order_def split: if_splits)


lemma merge_status_critical: "merge_status M ''CRITICAL'' = ''CRITICAL''"
  using severity_2[of M] by (auto simp: merge_status_def severity_levels)


lemma model_status_total:
  "(truthy (dict_get ma ''status'') \<longrightarrow> (\<exists>s. dict_get ma ''status'' = JStr s)) \<Longrightarrow>
   \<exists>M. model_status ma = Inr M"
  by (cases "dict_get ma ''status''") (auto simp: model_status_def py_or_def)

lemma write_check_policy_closed:
  "write_check_policy F cs (st, rs) =
     (if filter (\<lambda>c. pass_rate c < 20 / 100) cs = [] then st else ''CRITICAL'',
      rs @ map (write_check_reason F) (filter (\<lambda>c. pass_rate c < 20 / 100) cs))"
  by (induction cs arbitrary: st rs) simp_all



lemma apply_status_policy_result:
  assumes "apply_status_policy F ma rls profile = Inr a"
  shows "\<exists>M. model_status ma = Inr M \<and>
             deterministic_status a = fst (deterministic_policy F rls profile) \<and>
             deterministic_reasons a = snd (deterministic_policy F rls profile) \<and>
             status a = merge_status M (deterministic_status a) \<and>
             rate_limit_signals a = rls"
  using assms unfolding apply_status_policy_def
  by (auto simp: bnd_def Let_def split: sum.splits prod.splits if_splits)

lemma apply_status_policy_total:
  assumes "truthy (dict_get ma ''status'') \<longrightarrow> (\<exists>s. dict_get ma ''status'' = JStr s)"
      and "is_iterable (dict_get_or ma ''findings'' (JArr []))"
  shows "\<exists>a. apply_status_policy F ma rls profile = Inr a"
proof -
  from model_status_total[OF assms(1)] obtain M where M: "model_status ma = Inr M" by blast
  from assms(2) obtain fs where fs: "py_list (dict_get_or ma ''findings'' (JArr [])) = Inr fs"
    by (cases "dict_get_or ma ''findings'' (JArr [])") (auto simp: py_list_def)
  show ?thesis unfolding apply_status_policy_def
    by (simp add: M fs bnd_def Let_def split: prod.splits)
qed

text \<open>
  Two edges of the policy: a truthy status that is not a str raises, and a bundle threshold
  of zero is falsy at line 372, so the profile's default takes its place.
\<close>

lemma apply_status_policy_status_not_str:
  "apply_status_policy F [(''status'', JNum 5)] rls profile = Inl AttributeError"
  by (simp add: apply_status_policy_def model_status_def dict_get_def py_or_def bnd_def
      split: prod.splits)

lemma policy_threshold_zero:
  "http_req_failed_threshold rls = 0 \<Longrightarrow> policy_threshold rls profile = profile_threshold profile"
  by (simp add: policy_threshold_def)



section \<open>Deterministic escalation\<close>

lemma deterministic_policy_closed:
  "deterministic_policy F rls profile =
     (let constrained = filter (\<lambda>c. pass_rate c < 20 / 100) (critical_write_checks rls);
          exceeded = (case http_req_failed_rate rls of
                        None \<Rightarrow> False | Some r \<Rightarrow> r > policy_threshold rls profile)
      in (if exceeded \<or> constrained \<noteq> [] then ''CRITICAL'' else ''HEALTHY'',
          (case http_req_failed_rate rls of
             None \<Rightarrow> []
           | Some r \<Rightarrow> if r > policy_threshold rls profile
                       then [failed_rate_reason F r (policy_threshold rls profile)] else []) @
          map (write_check_reason F) constrained))"
  by (auto simp: deterministic_policy_def write_check_policy_closed Let_def split: option.splits)

lemma apply_status_policy_critical:
  assumes ok: "truthy (dict_get ma ''status'') \<longrightarrow> (\<exists>s. dict_get ma ''status'' = JStr s)"
              "is_iterable (dict_get_or ma ''findings'' (JArr []))"
      and det: "fst (deterministic_policy F rls profile) = ''CRITICAL''"
  shows "\<exists>a. apply_status_policy F ma rls profile = Inr a \<and>
             deterministic_status a = ''CRITICAL'' \<and> status a = ''CRITICAL'' \<and>
             deterministic_reasons a = snd (deterministic_policy F rls profile)"
proof -
  from apply_status_policy_total[OF ok] obtain a where a: "apply_status_policy F ma rls profile = Inr a"
    by blast
  from apply_status_policy_result[OF a] det show ?thesis
    using a by (auto simp: merge_status_critical)
qed



lemma write_checks_loop_closed:
  "write_checks_loop pc names (cw, sc) =
     (cw @ concat (map (\<lambda>n. case map_of pc n of
                              None \<Rightarrow> []
                            | Some r \<Rightarrow> [\<lparr>passes = passes r, fails = fails r,
                                          pass_rate = pass_rate r, check_name = n\<rparr>]) names),
      sc @ filter (\<lambda>n. case map_of pc n of None \<Rightarrow> False | Some r \<Rightarrow> pass_rate r < 20 / 100) names)"
  by (induction names arbitrary: cw sc) (auto split: option.splits)

lemma build_rate_limit_signals_checks:
  assumes "build_rate_limit_signals fl summary profile loki = Inr rls"
      and "extract_root_group_checks summary = Inr pc"
  shows "critical_write_checks rls =
           concat (map (\<lambda>n. case map_of pc n of
                              None \<Rightarrow> []
                            | Some r \<Rightarrow> [\<lparr>passes = passes r, fails = fails r,
                                          pass_rate = pass_rate r, check_name = n\<rparr>])
                       CANONICAL_WRITE_CHECKS)"
    and "likely_rate_limited_endpoints rls =
           endpoints_of (filter (\<lambda>n. case map_of pc n of None \<Rightarrow> False
                                       | Some r \<Rightarrow> pass_rate r < 20 / 100) CANONICAL_WRITE_CHECKS)"
proof -
  from assms(1) obtain pc' sc where pc': "extract_root_group_checks summary = Inr pc'"
    and loop: "write_checks_loop pc' CANONICAL_WRITE_CHECKS ([], []) = (critical_write_checks rls, sc)"
    and ep: "likely_rate_limited_endpoints rls = endpoints_of sc"
    by (rule build_rate_limit_signals_parts)
  from pc' assms(2) have [simp]: "pc' = pc" by simp
  from loop show "critical_write_checks rls =
           concat (map (\<lambda>n. case map_of pc n of
                              None \<Rightarrow> []
                            | Some r \<Rightarrow> [\<lparr>passes = passes r, fails = fails r,
                                          pass_rate = pass_rate r, check_name = n\<rparr>])
                       CANONICAL_WRITE_CHECKS)"
    by (simp add: write_checks_loop_closed)
  from loop ep show "likely_rate_limited_endpoints rls =
           endpoints_of (filter (\<lambda>n. case map_of pc n of None \<Rightarrow> False
                                       | Some r \<Rightarrow> pass_rate r < 20 / 100) CANONICAL_WRITE_CHECKS)"
    by (simp add: write_checks_loop_closed)
qed

lemma critical_write_checks_iff:
  assumes "build_rate_limit_signals fl summary profile loki = Inr rls"
      and "extract_root_group_checks summary = Inr pc"
  shows "w \<in> set (critical_write_checks rls) \<longleftrightarrow>
           (\<exists>n r. n \<in> set CANONICAL_WRITE_CHECKS \<and> map_of pc n = Some r \<and>
                  w = \<lparr>passes = passes r, fails = fails r, pass_rate = pass_rate r, check_name = n\<rparr>)"
proof -
  have "w \<in> set (critical_write_checks rls) \<longleftrightarrow>
          (\<exists>n \<in> set CANONICAL_WRITE_CHECKS.
             w \<in> set (case map_of pc n of
                        None \<Rightarrow> []
                      | Some r \<Rightarrow> [\<lparr>passes = passes r, fails = fails r,
                                    pass_rate = pass_rate r, check_name = n\<rparr>]))"
    unfolding build_rate_limit_signals_checks(1)[OF assms] by simp
  also have "\<dots> \<longleftrightarrow> (\<exists>n r. n \<in> set CANONICAL_WRITE_CHECKS \<and> map_of pc n = Some r \<and>
                  w = \<lparr>passes = passes r, fails = fails r, pass_rate = pass_rate r, check_name = n\<rparr>)"
  proof (intro iffI)
    assume "\<exists>n \<in> set CANONICAL_WRITE_CHECKS.
             w \<in> set (case map_of pc n of
                        None \<Rightarrow> []
                      | Some r \<Rightarrow> [\<lparr>passes = passes r, fails = fails r,
                                    pass_rate = pass_rate r, check_name = n\<rparr>])"
    then obtain n where n: "n \<in> set CANONICAL_WRITE_CHECKS"
       "w \<in> set (case map_of pc n of
                        None \<Rightarrow> []
                      | Some r \<Rightarrow> [\<lparr>passes = passes r, fails = fails r,
                                    pass_rate = pass_rate r, check_name = n\<rparr>])" by blast
    then show "\<exists>n r. n \<in> set CANONICAL_WRITE_CHECKS \<and> map_of pc n = Some r \<and>
                  w = \<lparr>passes = passes r, fails = fails r, pass_rate = pass_rate r, check_name = n\<rparr>"
      by (cases "map_of pc n") auto
  next
    assume "\<exists>n r. n \<in> set CANONICAL_WRITE_CHECKS \<and> map_of pc n = Some r \<and>
                  w = \<lparr>passes = passes r, fails = fails r, pass_rate = pass_rate r, check_name = n\<rparr>"
    then obtain n r where "n \<in> set CANONICAL_WRITE_CHECKS" "map_of pc n = Some r"
      "w = \<lparr>passes = passes r, fails = fails r, pass_rate = pass_rate r, check_name = n\<rparr>" by blast
    then show "\<exists>n \<in> set CANONICAL_WRITE_CHECKS.
             w \<in> set (case map_of pc n of
                        None \<Rightarrow> []
                      | Some r \<Rightarrow> [\<lparr>passes = passes r, fails = fails r,
                                    pass_rate = pass_rate r, check_name = n\<rparr>])"
      by (intro bexI[of _ n]) simp_all
  qed
  finally show ?thesis .
qed

lemma four_tests_iff:
  "e \<in> set ((if c1 \<in> S then [e1] else []) @ (if c2 \<in> S then [e2] else []) @
             (if c3 \<in> S then [e3] else []) @ (if c4 \<in> S then [e4] else [])) \<longleftrightarrow>
   (\<exists>n. (n, e) \<in> set [(c1, e1), (c2, e2), (c3, e3), (c4, e4)] \<and> n \<in> S)"
  by auto

lemma endpoints_of_iff:
  "e \<in> set (endpoints_of sc) \<longleftrightarrow> (\<exists>n. (n, e) \<in> set endpoint_table \<and> n \<in> set sc)"
  unfolding endpoints_of_def endpoint_table_def by (rule four_tests_iff)

lemma table_names_canonical: "(n, e) \<in> set endpoint_table \<Longrightarrow> n \<in> set CANONICAL_WRITE_CHECKS"
  unfolding CANONICAL_WRITE_CHECKS_def endpoint_table_def by auto

lemma endpoints_iff:
  assumes "build_rate_limit_signals fl summary profile loki = Inr rls"
      and "extract_root_group_checks summary = Inr pc"
  shows "e \<in> set (likely_rate_limited_endpoints rls) \<longleftrightarrow>
           (\<exists>n r. (n, e) \<in> set endpoint_table \<and> map_of pc n = Some r \<and> pass_rate r < 20 / 100)"
proof -
  have P: "(case map_of pc n of None \<Rightarrow> False | Some r \<Rightarrow> pass_rate r < 20 / 100) \<longleftrightarrow>
           (\<exists>r. map_of pc n = Some r \<and> pass_rate r < 20 / 100)" for n
    by (cases "map_of pc n") simp_all
  show ?thesis
    unfolding build_rate_limit_signals_checks(2)[OF assms] endpoints_of_iff set_filter mem_Collect_eq P
    using table_names_canonical by blast
qed

text \<open>
  Claim C5. A canonical write check present in the summary with a pass rate below 20% has
  its record in the bundle, makes the deterministic status \<^verbatim>\<open>CRITICAL\<close> with a reason
  naming the check and its pass rate, and puts its endpoint in the inferred list; every
  endpoint of that list comes from such a check.
\<close>

theorem constrained_write_check_escalates:
  assumes "build_rate_limit_signals fl summary profile loki = Inr rls"
      and "extract_root_group_checks summary = Inr per_check"
      and "(name, endpoint) \<in> set [(''create post status 201'', ''POST /api/posts''),
                         (''comment status ok'', ''POST /api/posts/:id/comments''),
                         (''friend request status acceptable'', ''POST /api/friends/requests/:id''),
                         (''dm send status acceptable'', ''POST /api/conversations/:id/messages'')]"
      and "map_of per_check name = Some r"
      and "pass_rate r < 20 / 100"
      and "truthy (dict_get ma ''status'') \<longrightarrow> (\<exists>s. dict_get ma ''status'' = JStr s)"
      and "is_iterable (dict_get_or ma ''findings'' (JArr []))"
  shows "\<lparr>passes = passes r, fails = fails r, pass_rate = pass_rate r, check_name = name\<rparr>
           \<in> set (critical_write_checks rls) \<and>
         endpoint \<in> set (likely_rate_limited_endpoints rls) \<and>
         (\<exists>a. apply_status_policy F ma rls profile' = Inr a \<and>
              deterministic_status a = ''CRITICAL'' \<and>
              (''Write check '' @ [CHR 0x27] @ name @ [CHR 0x27] @ '' pass rate '' @
                 fmt_percent F 2 (pass_rate r) @ '' < 20%'') \<in> set (deterministic_reasons a)) \<and>
         (\<forall>e \<in> set (likely_rate_limited_endpoints rls).
            \<exists>n r'. (n, e) \<in> set [(''create post status 201'', ''POST /api/posts''),
                         (''comment status ok'', ''POST /api/posts/:id/comments''),
                         (''friend request status acceptable'', ''POST /api/friends/requests/:id''),
                         (''dm send status acceptable'', ''POST /api/conversations/:id/messages'')] \<and>
                   map_of per_check n = Some r' \<and> pass_rate r' < 20 / 100)"
proof -
  let ?w = "\<lparr>passes = passes r, fails = fails r, pass_rate = pass_rate r, check_name = name\<rparr>"
  note tbl = assms(3)[folded endpoint_table_def]
  have w: "?w \<in> set (critical_write_checks rls)"
    unfolding critical_write_checks_iff[OF assms(1,2)]
    using table_names_canonical[OF tbl] assms(4) by blast
  have e: "endpoint \<in> set (likely_rate_limited_endpoints rls)"
    unfolding endpoints_iff[OF assms(1,2)] using tbl assms(4,5) by blast
  have "?w \<in> set (filter (\<lambda>c. pass_rate c < 20 / 100) (critical_write_checks rls))"
    using w assms(5) by simp
  then have det: "fst (deterministic_policy F rls profile') = ''CRITICAL''"
    and rs: "write_check_reason F ?w \<in> set (snd (deterministic_policy F rls profile'))"
    unfolding deterministic_policy_closed Let_def by (auto simp del: set_filter)
  from apply_status_policy_critical[OF assms(6,7) det] obtain a where
    a: "apply_status_policy F ma rls profile' = Inr a" "deterministic_status a = ''CRITICAL''"
       "deterministic_reasons a = snd (deterministic_policy F rls profile')"
    by blast
  have r: "write_check_reason F ?w = ''Write check '' @ [CHR 0x27] @ name @ [CHR 0x27] @ '' pass rate '' @
                 fmt_percent F 2 (pass_rate r) @ '' < 20%''"
    by (simp add: write_check_reason_def)
  have all: "\<forall>e \<in> set (likely_rate_limited_endpoints rls).
            \<exists>n r'. (n, e) \<in> set endpoint_table \<and>
                   map_of per_check n = Some r' \<and> pass_rate r' < 20 / 100"
    using endpoints_iff[OF assms(1,2)] by blast
  show ?thesis
    using w e a rs r all[unfolded endpoint_table_def] by (intro conjI exI[of _ a]) simp_all
qed

theorem constrained_write_check_escalates_witness:
  "build_rate_limit_signals (\<lambda>s. None)
     (JObj [(''root_group'', JObj [(''checks'', JObj
        [(''create post status 201'', JObj [(''passes'', JNum 5), (''fails'', JNum 95)])])])])
     ''low'' \<lparr>loki_window = ([], []), loki_queries = [], entries = []\<rparr>
     = Inr \<lparr>http_req_failed_rate = None, http_req_failed_threshold = 5 / 100,
             loki_rate_limit_entry_count = 0,
             critical_write_checks =
               [\<lparr>passes = 5, fails = 95, pass_rate = 5 / 100,
                   check_name = ''create post status 201''\<rparr>],
             likely_rate_limited_endpoints = [''POST /api/posts'']\<rparr> \<and>
   (5 / 100 :: rat) < 20 / 100 \<and>
   (\<exists>a. apply_status_policy
          \<lparr>fmt_fixed = (\<lambda>n x. ''0.1200''), fmt_percent = (\<lambda>n x. ''5.00%''),
           fmt_num = (\<lambda>x. ''0.08''), fmt_repr = (\<lambda>v. ''None'')\<rparr>
          [(''status'', JStr ''HEALTHY'')]
          \<lparr>http_req_failed_rate = None, http_req_failed_threshold = 5 / 100,
             loki_rate_limit_entry_count = 0,
             critical_write_checks =
               [\<lparr>passes = 5, fails = 95, pass_rate = 5 / 100,
                   check_name = ''create post status 201''\<rparr>],
             likely_rate_limited_endpoints = [''POST /api/posts'']\<rparr>
          ''low'' = Inr a \<and>
        deterministic_status a = ''CRITICAL'' \<and>
        (''Write check '' @ [CHR 0x27] @ ''create post status 201'' @ [CHR 0x27] @
           '' pass rate 5.00% < 20%'') \<in> set (deterministic_reasons a))"
proof -
  let ?F = "\<lparr>fmt_fixed = (\<lambda>n x. ''0.1200''), fmt_percent = (\<lambda>n x. ''5.00%''),
      fmt_num = (\<lambda>x. ''0.08''), fmt_repr = (\<lambda>v. ''None'')\<rparr>"
  let ?ma = "[(''status'', JStr ''HEALTHY'')]"
  let ?S = "JObj [(''root_group'', JObj [(''checks'', JObj
        [(''create post status 201'', JObj [(''passes'', JNum 5), (''fails'', JNum 95)])])])]"
  let ?L = "\<lparr>loki_window = ([], []), loki_queries = [], entries = []\<rparr>"
  let ?r = "\<lparr>passes = 5, fails = 95, pass_rate = 5 / 100 :: rat\<rparr>"
  let ?R = "\<lparr>http_req_failed_rate = None, http_req_failed_threshold = 5 / 100,
             loki_rate_limit_entry_count = 0,
             critical_write_checks =
               [\<lparr>passes = 5, fails = 95, pass_rate = 5 / 100,
                   check_name = ''create post status 201''\<rparr>],
             likely_rate_limited_endpoints = [''POST /api/posts'']\<rparr>"
  have h1: "build_rate_limit_signals (\<lambda>s. None) ?S ''low'' ?L = Inr ?R" by code_simp
  have h2: "extract_root_group_checks ?S = Inr [(''create post status 201'', ?r)]" by code_simp
  have h3: "(''create post status 201'', ''POST /api/posts'')
              \<in> set [(''create post status 201'', ''POST /api/posts''),
                         (''comment status ok'', ''POST /api/posts/:id/comments''),
                         (''friend request status acceptable'', ''POST /api/friends/requests/:id''),
                         (''dm send status acceptable'', ''POST /api/conversations/:id/messages'')]"
    by simp
  have h4: "map_of [(''create post status 201'', ?r)] ''create post status 201'' = Some ?r" by simp
  have h5: "pass_rate ?r < 20 / 100" by simp
  have h6: "truthy (dict_get ?ma ''status'') \<longrightarrow> (\<exists>s. dict_get ?ma ''status'' = JStr s)"
    by (simp add: dict_get_def)
  have h7: "is_iterable (dict_get_or ?ma ''findings'' (JArr []))" by (simp add: dict_get_or_def)
  from constrained_write_check_escalates[OF h1 h2 h3 h4 h5 h6 h7, of ?F "''low''"]
  have "\<exists>a. apply_status_policy ?F ?ma ?R ''low'' = Inr a \<and>
              deterministic_status a = ''CRITICAL'' \<and>
              (''Write check '' @ [CHR 0x27] @ ''create post status 201'' @ [CHR 0x27] @ '' pass rate '' @
                 fmt_percent ?F 2 (pass_rate ?r) @ '' < 20%'') \<in> set (deterministic_reasons a)"
    by blast
  then show ?thesis using h1 by simp
qed

text \<open>
  Claim C10. A canonical write check that is absent from the per-check table has no entry
  in \<^verbatim>\<open>critical_write_checks\<close> and its endpoint is not inferred; if the deterministic
  status is \<^verbatim>\<open>CRITICAL\<close> then the failure rate exceeds the threshold or some other,
  present check has a pass rate below 20%.
\<close>

theorem absent_write_check_contributes_nothing:
  assumes "build_rate_limit_signals fl summary profile loki = Inr rls"
      and "extract_root_group_checks summary = Inr per_check"
      and "(name, endpoint) \<in> set [(''create post status 201'', ''POST /api/posts''),
                         (''comment status ok'', ''POST /api/posts/:id/comments''),
                         (''friend request status acceptable'', ''POST /api/friends/requests/:id''),
                         (''dm send status acceptable'', ''POST /api/conversations/:id/messages'')]"
      and "map_of per_check name = None"
  shows "(\<forall>w \<in> set (critical_write_checks rls). check_name w \<noteq> name) \<and>
         endpoint \<notin> set (likely_rate_limited_endpoints rls) \<and>
         (fst (deterministic_policy F rls profile') = ''CRITICAL'' \<longrightarrow>
            (\<exists>x. http_req_failed_rate rls = Some x \<and> x > policy_threshold rls profile') \<or>
            (\<exists>n r. n \<in> set CANONICAL_WRITE_CHECKS \<and> n \<noteq> name \<and>
                   map_of per_check n = Some r \<and> pass_rate r < 20 / 100)) \<and>
         (\<forall>a. apply_status_policy F ma rls profile' = Inr a \<longrightarrow>
              deterministic_status a = fst (deterministic_policy F rls profile'))"
proof -
  note tbl = assms(3)[folded endpoint_table_def]
  have c: "\<forall>w \<in> set (critical_write_checks rls). check_name w \<noteq> name"
  proof (intro ballI notI)
    fix w assume w: "w \<in> set (critical_write_checks rls)" "check_name w = name"
    from w(1)[unfolded critical_write_checks_iff[OF assms(1,2)]] obtain n r where
      "map_of per_check n = Some r"
      "w = \<lparr>passes = passes r, fails = fails r, pass_rate = pass_rate r, check_name = n\<rparr>"
      by blast
    with w(2) assms(4) show False by simp
  qed
  have inj: "(n, endpoint) \<in> set endpoint_table \<Longrightarrow> n = name" for n
    using tbl unfolding endpoint_table_def by auto
  have e: "endpoint \<notin> set (likely_rate_limited_endpoints rls)"
    unfolding endpoints_iff[OF assms(1,2)] using inj assms(4) by auto
  have d: "fst (deterministic_policy F rls profile') = ''CRITICAL'' \<longrightarrow>
            (\<exists>x. http_req_failed_rate rls = Some x \<and> x > policy_threshold rls profile') \<or>
            (\<exists>n r. n \<in> set CANONICAL_WRITE_CHECKS \<and> n \<noteq> name \<and>
                   map_of per_check n = Some r \<and> pass_rate r < 20 / 100)"
  proof
    assume crit: "fst (deterministic_policy F rls profile') = ''CRITICAL''"
    show "(\<exists>x. http_req_failed_rate rls = Some x \<and> x > policy_threshold rls profile') \<or>
            (\<exists>n r. n \<in> set CANONICAL_WRITE_CHECKS \<and> n \<noteq> name \<and>
                   map_of per_check n = Some r \<and> pass_rate r < 20 / 100)"
    proof (cases "filter (\<lambda>c. pass_rate c < 20 / 100) (critical_write_checks rls) = []")
      case True
      with crit show ?thesis
        unfolding deterministic_policy_closed Let_def by (auto split: option.splits if_splits)
    next
      case False
      then obtain w where w: "w \<in> set (critical_write_checks rls)" "pass_rate w < 20 / 100"
        by (auto simp: filter_empty_conv)
      from w(1)[unfolded critical_write_checks_iff[OF assms(1,2)]] obtain n r where
        "n \<in> set CANONICAL_WRITE_CHECKS" "map_of per_check n = Some r"
        "w = \<lparr>passes = passes r, fails = fails r, pass_rate = pass_rate r, check_name = n\<rparr>" by blast
      with w(2) assms(4) show ?thesis by auto
    qed
  qed
  have a: "\<forall>a. apply_status_policy F ma rls profile' = Inr a \<longrightarrow>
              deterministic_status a = fst (deterministic_policy F rls profile')"
    using apply_status_policy_result by blast
  show ?thesis using c e d a by blast
qed

theorem absent_write_check_contributes_nothing_witness:
  "build_rate_limit_signals (\<lambda>s. None)
     (JObj [(''root_group'', JObj [(''checks'', JObj
        [(''create post status 201'', JObj [(''passes'', JNum 90), (''fails'', JNum 10)])])])])
     ''low'' \<lparr>loki_window = ([], []), loki_queries = [], entries = []\<rparr>
     = Inr \<lparr>http_req_failed_rate = None, http_req_failed_threshold = 5 / 100,
             loki_rate_limit_entry_count = 0,
             critical_write_checks =
               [\<lparr>passes = 90, fails = 10, pass_rate = 90 / 100,
                   check_name = ''create post status 201''\<rparr>],
             likely_rate_limited_endpoints = []\<rparr> \<and>
   map_of [(''create post status 201'', \<lparr>passes = 90, fails = 10, pass_rate = 90 / 100 :: rat\<rparr>)]
     ''comment status ok'' = None \<and>
   ''POST /api/posts/:id/comments'' \<notin> set ([] :: string list) \<and>
   fst (deterministic_policy
          \<lparr>fmt_fixed = (\<lambda>n x. ''0.1200''), fmt_percent = (\<lambda>n x. ''5.00%''),
           fmt_num = (\<lambda>x. ''0.08''), fmt_repr = (\<lambda>v. ''None'')\<rparr>
          \<lparr>http_req_failed_rate = None, http_req_failed_threshold = 5 / 100,
             loki_rate_limit_entry_count = 0,
             critical_write_checks =
               [\<lparr>passes = 90, fails = 10, pass_rate = 90 / 100,
                   check_name = ''create post status 201''\<rparr>],
             likely_rate_limited_endpoints = []\<rparr> ''low'') = ''HEALTHY''"
proof -
  let ?F = "\<lparr>fmt_fixed = (\<lambda>n x. ''0.1200''), fmt_percent = (\<lambda>n x. ''5.00%''),
      fmt_num = (\<lambda>x. ''0.08''), fmt_repr = (\<lambda>v. ''None'')\<rparr>"
  let ?S = "JObj [(''root_group'', JObj [(''checks'', JObj
        [(''create post status 201'', JObj [(''passes'', JNum 90), (''fails'', JNum 10)])])])]"
  let ?L = "\<lparr>loki_window = ([], []), loki_queries = [], entries = []\<rparr>"
  let ?r = "\<lparr>passes = 90, fails = 10, pass_rate = 90 / 100 :: rat\<rparr>"
  let ?R = "\<lparr>http_req_failed_rate = None, http_req_failed_threshold = 5 / 100,
             loki_rate_limit_entry_count = 0,
             critical_write_checks =
               [\<lparr>passes = 90, fails = 10, pass_rate = 90 / 100,
                   check_name = ''create post status 201''\<rparr>],
             likely_rate_limited_endpoints = []\<rparr>"
  have h1: "build_rate_limit_signals (\<lambda>s. None) ?S ''low'' ?L = Inr ?R" by code_simp
  have h2: "extract_root_group_checks ?S = Inr [(''create post status 201'', ?r)]" by code_simp
  have h3: "(''comment status ok'', ''POST /api/posts/:id/comments'')
              \<in> set [(''create post status 201'', ''POST /api/posts''),
                         (''comment status ok'', ''POST /api/posts/:id/comments''),
                         (''friend request status acceptable'', ''POST /api/friends/requests/:id''),
                         (''dm send status acceptable'', ''POST /api/conversations/:id/messages'')]"
    by simp
  have h4: "map_of [(''create post status 201'', ?r)] ''comment status ok'' = None" by simp
  have d: "fst (deterministic_policy ?F ?R ''low'') = ''HEALTHY''" by code_simp
  from absent_write_check_contributes_nothing[OF h1 h2 h3 h4, of ?F "''low''" "[]"]
  have "''POST /api/posts/:id/comments'' \<notin> set (likely_rate_limited_endpoints ?R)" by blast
  then show ?thesis using h1 h4 d by simp
qed

section \<open>Threshold resolution\<close>

lemma py_or_obj: "py_or (JObj d) (JObj []) = JObj d"
  by (simp add: py_or_def)

lemma first_threshold_first:
  "(\<forall>e \<in> set pre. threshold_of_expr e = None) \<Longrightarrow> threshold_of_expr expr = Some x \<Longrightarrow>
   first_threshold (pre @ expr # post) = Some x"
  by (induction pre) auto

lemma first_threshold_none:
  "(\<forall>e \<in> set ks. threshold_of_expr e = None) \<Longrightarrow> first_threshold ks = None"
  by (induction ks) auto

lemma parse_declared:
  assumes "dict_get_or sd ''metrics'' (JObj []) = JObj md"
      and "dict_get md ''http_req_failed'' = JObj fd"
      and "dict_get fd ''thresholds'' = JObj ths"
  shows "parse_failure_threshold_from_summary (JObj sd) = Inr (first_threshold (map fst ths))"
  by (simp add: parse_failure_threshold_from_summary_def py_get_or_def py_get_def assms py_or_obj
      bnd_def)

lemma not_space_digit_or_dot: "is_digit_or_dot c \<Longrightarrow> \<not> is_space c"
  by (auto simp: is_digit_or_dot_def is_digit_def is_space_def)

lemma not_space_lt: "\<not> is_space CHR ''<''"
  by (simp add: is_space_def)

lemma dropWhile_spaces: "list_all is_space sp \<Longrightarrow> \<not> is_space c \<Longrightarrow>
   dropWhile is_space (sp @ c # r) = c # r"
  by (induction sp) auto

lemma takeWhile_run:
  "list_all P d \<Longrightarrow> (r = [] \<or> \<not> P (hd r)) \<Longrightarrow> takeWhile P (d @ r) = d"
  by (induction d) (cases r; simp)+

lemma search_rate_simple:
  assumes "list_all is_space sp1" "list_all is_space sp2" "d \<noteq> []" "list_all is_digit_or_dot d"
      and "r = [] \<or> \<not> is_digit_or_dot (hd r)"
  shows "search_rate (''rate'' @ sp1 @ ''<'' @ sp2 @ d @ r) = Some d"
proof -
  obtain c d' where d: "d = c # d'" using assms(3) by (cases d) auto
  have c: "\<not> is_space c" using assms(4) d by (simp add: not_space_digit_or_dot)
  have 1: "dropWhile is_space (sp1 @ CHR ''<'' # sp2 @ d @ r) = CHR ''<'' # sp2 @ d @ r"
    by (rule dropWhile_spaces[OF assms(1) not_space_lt])
  have 2: "dropWhile is_space (sp2 @ d @ r) = d @ r"
    using dropWhile_spaces[OF assms(2) c, of "d' @ r"] d by simp
  have 3: "takeWhile is_digit_or_dot (d @ r) = d"
    by (rule takeWhile_run[OF assms(4,5)])
  show ?thesis using assms(3) by (simp add: 1 2 3)
qed

lemma profile_threshold_table:
  "profile_threshold ''low'' = 5 / 100" "profile_threshold ''medium'' = 8 / 100"
  "profile_threshold ''high'' = 10 / 100" "profile_threshold ''extreme'' = 12 / 100"
  "profile_threshold ''insane'' = 15 / 100"
  by (simp_all add: profile_threshold_def PROFILE_FAILURE_THRESHOLDS_def)

lemma profile_threshold_unknown:
  "profile \<notin> set [''low'', ''medium'', ''high'', ''extreme'', ''insane''] \<Longrightarrow>
   profile_threshold profile = 8 / 100"
  by (simp add: profile_threshold_def PROFILE_FAILURE_THRESHOLDS_def)

lemma build_threshold:
  "build_rate_limit_signals fl summary profile loki = Inr rls \<Longrightarrow>
   resolve_threshold summary profile = Inr (http_req_failed_threshold rls)"
  unfolding build_rate_limit_signals_def
  by (auto simp: bnd_def Let_def split: sum.splits prod.splits)

text \<open>
  Claim C4, as the code has it. The loop of \<^verbatim>\<open>_parse_failure_threshold_from_summary\<close>
  returns at the first threshold expression, in the dict's order, in which the pattern
  matches and the matched run of digits and dots is a decimal numeral; that value is the
  resolved threshold of the bundle. An expression \<^verbatim>\<open>rate<X\<close> with white space allowed
  around \<^verbatim>\<open><\<close> and \<open>X\<close> a run of digits and dots yields the float of \<open>X\<close>, so
  \<^verbatim>\<open>rate<0.10\<close> gives exactly 0.10 and \<^verbatim>\<open>rate<0.08\<close> wins over the default 0.05 of
  profile \<^verbatim>\<open>low\<close>. When no expression yields a value, or the summary declares none, the
  resolved threshold is the profile's entry in the table of five, 0.08 for any other
  profile.
\<close>

theorem declared_threshold_resolution:
  "(dict_get_or sd ''metrics'' (JObj []) = JObj md \<and>
    dict_get md ''http_req_failed'' = JObj fd \<and>
    dict_get fd ''thresholds'' = JObj ths \<and>
    map fst ths = pre @ expr # post \<and>
    (\<forall>e \<in> set pre. threshold_of_expr e = None) \<and>
    threshold_of_expr expr = Some x \<longrightarrow>
      resolve_threshold (JObj sd) profile = Inr x) \<and>
   (list_all is_space sp1 \<and> list_all is_space sp2 \<and> d \<noteq> [] \<and> list_all is_digit_or_dot d \<longrightarrow>
      threshold_of_expr (''rate'' @ sp1 @ ''<'' @ sp2 @ d) = float_of_decimal d) \<and>
   float_of_decimal ''0.10'' = Some (10 / 100) \<and>
   float_of_decimal ''0.08'' = Some (8 / 100) \<and>
   (dict_get_or sd ''metrics'' (JObj []) = JObj md \<and>
    dict_get md ''http_req_failed'' = JObj fd \<and>
    dict_get fd ''thresholds'' = JObj ths \<and>
    (\<forall>e \<in> set (map fst ths). threshold_of_expr e = None) \<longrightarrow>
      resolve_threshold (JObj sd) profile = Inr (profile_threshold profile)) \<and>
   (parse_failure_threshold_from_summary summary = Inr None \<longrightarrow>
      resolve_threshold summary profile = Inr (profile_threshold profile)) \<and>
   (map_of PROFILE_FAILURE_THRESHOLDS profile = None \<longrightarrow> profile_threshold profile = 8 / 100) \<and>
   map profile_threshold [''low'', ''medium'', ''high'', ''extreme'', ''insane'']
     = [5 / 100, 8 / 100, 10 / 100, 12 / 100, 15 / 100] \<and>
   (build_rate_limit_signals fl summary profile loki = Inr rls \<longrightarrow>
      resolve_threshold summary profile = Inr (http_req_failed_threshold rls))"
proof (intro conjI impI; (elim conjE)?)
  assume a: "dict_get_or sd ''metrics'' (JObj []) = JObj md"
    "dict_get md ''http_req_failed'' = JObj fd" "dict_get fd ''thresholds'' = JObj ths"
    "map fst ths = pre @ expr # post" "\<forall>e \<in> set pre. threshold_of_expr e = None"
    "threshold_of_expr expr = Some x"
  show "resolve_threshold (JObj sd) profile = Inr x"
    by (simp add: resolve_threshold_def parse_declared[OF a(1-3)] a(4)
        first_threshold_first[OF a(5,6)] bnd_def)
next
  assume "list_all is_space sp1" "list_all is_space sp2" "d \<noteq> []" "list_all is_digit_or_dot d"
  from search_rate_simple[OF this, of "[]"]
  show "threshold_of_expr (''rate'' @ sp1 @ ''<'' @ sp2 @ d) = float_of_decimal d"
    by (simp add: threshold_of_expr_def)
next
  show "float_of_decimal ''0.10'' = Some (10 / 100)" by code_simp
next
  show "float_of_decimal ''0.08'' = Some (8 / 100)" by code_simp
next
  assume a: "dict_get_or sd ''metrics'' (JObj []) = JObj md"
    "dict_get md ''http_req_failed'' = JObj fd" "dict_get fd ''thresholds'' = JObj ths"
    "\<forall>e \<in> set (map fst ths). threshold_of_expr e = None"
  show "resolve_threshold (JObj sd) profile = Inr (profile_threshold profile)"
    by (simp add: resolve_threshold_def parse_declared[OF a(1-3)]
        first_threshold_none[OF a(4)] bnd_def)
next
  assume "parse_failure_threshold_from_summary summary = Inr None"
  then show "resolve_threshold summary profile = Inr (profile_threshold profile)"
    by (simp add: resolve_threshold_def bnd_def)
next
  assume "map_of PROFILE_FAILURE_THRESHOLDS profile = None"
  then show "profile_threshold profile = 8 / 100" by (simp add: profile_threshold_def)
next
  show "map profile_threshold [''low'', ''medium'', ''high'', ''extreme'', ''insane'']
     = [5 / 100, 8 / 100, 10 / 100, 12 / 100, 15 / 100]"
    by (simp add: profile_threshold_table)
next
  assume "build_rate_limit_signals fl summary profile loki = Inr rls"
  then show "resolve_threshold summary profile = Inr (http_req_failed_threshold rls)"
    by (rule build_threshold)
qed

theorem declared_threshold_resolution_witness:
  "resolve_threshold
     (JObj [(''metrics'', JObj [(''http_req_failed'', JObj [(''thresholds'',
        JObj [(''rate<0.08'', JBool True)])])])]) ''low'' = Inr (8 / 100) \<and>
   profile_threshold ''low'' = 5 / 100 \<and>
   threshold_of_expr ''rate<0.10'' = Some (10 / 100) \<and>
   threshold_of_expr ''rate<=0.05'' = None \<and>
   resolve_threshold
     (JObj [(''metrics'', JObj [(''http_req_failed'', JObj [(''thresholds'',
        JObj [(''rate<=0.05'', JBool True)])])])]) ''low'' = Inr (5 / 100) \<and>
   parse_failure_threshold_from_summary (JObj []) = Inr None \<and>
   resolve_threshold (JObj []) ''staging'' = Inr (8 / 100) \<and>
   build_rate_limit_signals (\<lambda>s. None) (JObj []) ''staging''
     \<lparr>loki_window = ([], []), loki_queries = [], entries = []\<rparr>
     = Inr \<lparr>http_req_failed_rate = None, http_req_failed_threshold = 8 / 100,
             loki_rate_limit_entry_count = 0, critical_write_checks = [],
             likely_rate_limited_endpoints = []\<rparr>"
proof -
  let ?t1 = "[(''rate<0.08'', JBool True)]"
  let ?f1 = "[(''thresholds'', JObj ?t1)]"
  let ?m1 = "[(''http_req_failed'', JObj ?f1)]"
  let ?s1 = "[(''metrics'', JObj ?m1)]"
  let ?t2 = "[(''rate<=0.05'', JBool True)]"
  let ?f2 = "[(''thresholds'', JObj ?t2)]"
  let ?m2 = "[(''http_req_failed'', JObj ?f2)]"
  let ?s2 = "[(''metrics'', JObj ?m2)]"
  let ?L = "\<lparr>loki_window = ([], []), loki_queries = [], entries = []\<rparr>"
  let ?R = "\<lparr>http_req_failed_rate = None, http_req_failed_threshold = 8 / 100,
             loki_rate_limit_entry_count = 0, critical_write_checks = [],
             likely_rate_limited_endpoints = []\<rparr>"
  have g1: "dict_get_or ?s1 ''metrics'' (JObj []) = JObj ?m1"
           "dict_get ?m1 ''http_req_failed'' = JObj ?f1" "dict_get ?f1 ''thresholds'' = JObj ?t1"
    and g2: "dict_get_or ?s2 ''metrics'' (JObj []) = JObj ?m2"
           "dict_get ?m2 ''http_req_failed'' = JObj ?f2" "dict_get ?f2 ''thresholds'' = JObj ?t2"
    by (simp_all add: dict_get_or_def dict_get_def)
  have e1: "threshold_of_expr ''rate<0.08'' = Some (8 / 100)"
    and e2: "threshold_of_expr ''rate<=0.05'' = None"
    and e3: "threshold_of_expr ''rate<0.10'' = Some (10 / 100)"
    and e4: "parse_failure_threshold_from_summary (JObj []) = Inr None"
    and e5: "map_of PROFILE_FAILURE_THRESHOLDS ''staging'' = None"
    by code_simp+
  have b: "build_rate_limit_signals (\<lambda>s. None) (JObj []) ''staging'' ?L = Inr ?R" by code_simp
  have p: "profile_threshold ''low'' = 5 / 100"
    by (simp add: profile_threshold_def PROFILE_FAILURE_THRESHOLDS_def)
  show ?thesis
    using declared_threshold_resolution[where sd = ?s1 and md = ?m1 and fd = ?f1 and ths = ?t1
            and pre = "[]" and expr = "''rate<0.08''" and post = "[]" and x = "8 / 100"
            and profile = "''low''" and ?sp1.0 = "[]" and ?sp2.0 = "[]" and d = "''0.10''"]
          declared_threshold_resolution[where sd = ?s2 and md = ?m2 and fd = ?f2 and ths = ?t2
            and profile = "''low''"]
          declared_threshold_resolution[where summary = "JObj []" and profile = "''staging''"
            and fl = "\<lambda>s. None" and loki = ?L and rls = ?R]
          g1 g2 e1 e2 e3 e4 e5 b p
    by simp
qed

text \<open>
  Claim C4 as stated fails: a summary that declares \<^verbatim>\<open>rate<0.08\<close> and then
  \<^verbatim>\<open>rate<0.10\<close> resolves to 0.08, not to the 0.10 of its second expression; and the group
  \<^verbatim>\<open>[\d.]+\<close> reads \<^verbatim>\<open>rate<1e-3\<close> as 1 and rejects \<^verbatim>\<open>rate<1.2.3\<close>.
\<close>

theorem later_declaration_is_ignored:
  "resolve_threshold
     (JObj [(''metrics'', JObj [(''http_req_failed'', JObj [(''thresholds'',
        JObj [(''rate<0.08'', JBool True), (''rate<0.10'', JBool True)])])])]) ''low''
     = Inr (8 / 100) \<and>
   threshold_of_expr ''rate<0.10'' = Some (10 / 100) \<and>
   (8 / 100 :: rat) \<noteq> 10 / 100 \<and>
   resolve_threshold
     (JObj [(''metrics'', JObj [(''http_req_failed'', JObj [(''thresholds'',
        JObj [(''rate<1e-3'', JBool True)])])])]) ''low''
     = Inr 1 \<and>
   resolve_threshold
     (JObj [(''metrics'', JObj [(''http_req_failed'', JObj [(''thresholds'',
        JObj [(''rate<1.2.3'', JBool True)])])])]) ''low''
     = Inr (5 / 100)"
  by code_simp

section \<open>Highlights of the summary\<close>

text \<open>
  Claim C7 says that a metric whose \<^verbatim>\<open>rate\<close> field holds the number 0.0 yields 0.0 and
  not null. The code does not: \<^verbatim>\<open>metric_value\<close> finds 0 under \<^verbatim>\<open>rate\<close>, but
  \<^verbatim>\<open>metric_value(.., "rate") or metric_value(.., "value")\<close> tests truth, 0.0 is falsy, and
  the highlight is what \<^verbatim>\<open>value\<close> gives: null when that key is absent, and the other
  number when it is present.
\<close>

theorem zero_rate_highlight_is_none:
  "metric_value (JObj [(''http_req_failed'', JObj [(''values'', JObj [(''rate'', JNum 0)])])])
     ''http_req_failed'' ''rate'' = Inr (Some 0) \<and>
   extract_k6_highlights
     (JObj [(''metrics'', JObj [(''http_req_failed'', JObj [(''values'', JObj [(''rate'', JNum 0)])])])])
   = Inr \<lparr>http_req_duration_p95_ms = None, hl_http_req_failed_rate = None,
           checks_pass_rate = None, iterations = None, vus_max = None\<rparr> \<and>
   extract_k6_highlights
     (JObj [(''metrics'', JObj [(''checks'', JObj [(''rate'', JNum 0), (''value'', JNum (1 / 2))])])])
   = Inr \<lparr>http_req_duration_p95_ms = None, hl_http_req_failed_rate = None,
           checks_pass_rate = Some (1 / 2), iterations = None, vus_max = None\<rparr>"
  by code_simp

section \<open>The time window\<close>

text \<open>
  Claim C8, as the code has it. The resolver reads only \<^verbatim>\<open>start_epoch\<close> and
  \<^verbatim>\<open>end_epoch\<close>. When both are numbers and the end is later than the start, it returns
  the datetimes of exactly these two epochs, if the standard library converts them; for
  every other metadata it returns the ten minutes that end now.
\<close>

theorem time_window_resolution:
  "(is_number (dict_get metadata ''start_epoch'') \<and> is_number (dict_get metadata ''end_epoch'') \<and>
    num_of (dict_get metadata ''end_epoch'') > num_of (dict_get metadata ''start_epoch'') \<and>
    fromtimestamp (num_of (dict_get metadata ''start_epoch'')) = Inr s \<and>
    fromtimestamp (num_of (dict_get metadata ''end_epoch'')) = Inr e \<longrightarrow>
      parse_time_window fromtimestamp now metadata fallback_minutes = Inr (s, e)) \<and>
   (\<not> (is_number (dict_get metadata ''start_epoch'') \<and> is_number (dict_get metadata ''end_epoch'') \<and>
       num_of (dict_get metadata ''end_epoch'') > num_of (dict_get metadata ''start_epoch'')) \<longrightarrow>
      parse_time_window fromtimestamp now metadata 10 = Inr (now - 600, now))"
  by (auto simp: parse_time_window_def Let_def bnd_def)

theorem time_window_resolution_witness:
  "parse_time_window Inr 1800000000
     [(''start_epoch'', JNum 1700000000), (''end_epoch'', JNum 1700000300)] 10
     = Inr (1700000000, 1700000300) \<and>
   parse_time_window Inr 1800000000 [(''profile'', JStr ''low'')] 10
     = Inr (1799999400, 1800000000)"
proof -
  let ?m1 = "[(''start_epoch'', JNum 1700000000), (''end_epoch'', JNum 1700000300)]"
  let ?m2 = "[(''profile'', JStr ''low'')]"
  have g: "dict_get ?m1 ''start_epoch'' = JNum 1700000000"
          "dict_get ?m1 ''end_epoch'' = JNum 1700000300"
          "dict_get ?m2 ''start_epoch'' = JNull" "dict_get ?m2 ''end_epoch'' = JNull"
    by (simp_all add: dict_get_def)
  show ?thesis
    using time_window_resolution[of ?m1 Inr 1700000000 1700000300 1800000000 10]
          time_window_resolution[of ?m2 Inr 0 0 1800000000 10]
    by (simp add: g)
qed

text \<open>
  Claim C8 as stated fails: instants given as ISO timestamps, under \<^verbatim>\<open>start_utc\<close> and
  \<^verbatim>\<open>end_utc\<close> or under the epoch keys, are not used; the fallback window is returned.
\<close>

theorem iso_timestamps_fall_back:
  "parse_time_window Inr 1800000000
     [(''start_utc'', JStr ''2024-01-01T00:00:00+00:00''),
      (''end_utc'', JStr ''2024-01-01T00:05:00+00:00'')] 10
     = Inr (1799999400, 1800000000) \<and>
   parse_time_window Inr 1800000000
     [(''start_epoch'', JStr ''2024-01-01T00:00:00+00:00''),
      (''end_epoch'', JStr ''2024-01-01T00:05:00+00:00'')] 10
     = Inr (1799999400, 1800000000) \<and>
   (1799999400 :: rat, 1800000000 :: rat) \<noteq> (1704067200, 1704067500)"
  by (simp add: parse_time_window_def dict_get_def)

section \<open>What the HTML report leaves out\<close>

lemma map_of_update_other: "k \<noteq> k' \<Longrightarrow> map_of (AList.update k v d) k' = map_of d k'"
  by (simp add: update_conv')

lemma dict_get_or_update_other:
  "k \<noteq> k' \<Longrightarrow> dict_get_or (AList.update k v d) k' dflt = dict_get_or d k' dflt"
  by (simp add: dict_get_or_def map_of_update_other)

lemma list_field_update_other:
  "k \<noteq> k' \<Longrightarrow>
   list_field (a\<lparr>model_fields := AList.update k v (model_fields a)\<rparr>) k' = list_field a k'"
  by (simp add: list_field_def dict_get_or_update_other)

text \<open>
  Claim C9 says that each of the three renderers renders the findings, bottlenecks,
  likely-causes and next-actions lists. \<^verbatim>\<open>render_report_markdown\<close> and
  \<^verbatim>\<open>render_report_text\<close> read all four. \<^verbatim>\<open>render_report_html\<close> reads only
  \<^verbatim>\<open>findings\<close> and \<^verbatim>\<open>next_actions\<close>: whatever the analysis holds under
  \<^verbatim>\<open>bottlenecks\<close> and \<^verbatim>\<open>likely_causes\<close>, the HTML document is the same, so it shows
  neither the items of these lists nor \<^verbatim>\<open>None\<close> for them.
\<close>

theorem html_report_ignores_bottlenecks_and_causes:
  "render_report_html F generated run_dir profile metadata health_map hl
     (a\<lparr>model_fields :=
          AList.update ''bottlenecks'' b (AList.update ''likely_causes'' c (model_fields a))\<rparr>) loki
   = render_report_html F generated run_dir profile metadata health_map hl a loki"
proof -
  let ?a' = "a\<lparr>model_fields :=
          AList.update ''bottlenecks'' b (AList.update ''likely_causes'' c (model_fields a))\<rparr>"
  have f: "list_field ?a' ''findings'' = list_field a ''findings''"
    and n: "list_field ?a' ''next_actions'' = list_field a ''next_actions''"
    and s: "dict_get_or (model_fields ?a') ''summary'' (JStr ''No summary provided'')
              = dict_get_or (model_fields a) ''summary'' (JStr ''No summary provided'')"
    by (simp_all add: list_field_def dict_get_or_update_other)
  have r: "rate_limit_signals ?a' = rate_limit_signals a"
    "deterministic_reasons ?a' = deterministic_reasons a"
    "deterministic_status ?a' = deterministic_status a" "status ?a' = status a" by simp_all
  show ?thesis
    unfolding render_report_html_def f n s r ..
qed

text \<open>
  The Markdown and the text report end with the four lists, in the order findings,
  bottlenecks, likely causes, next actions; an empty list is the line \<^verbatim>\<open>- None\<close>.
\<close>

lemma lines_nl_append: "lines_nl (xs @ ys) = lines_nl xs @ lines_nl ys"
  by (simp add: lines_nl_def)

lemma lines_nl_suffix: "drop n ls = tl_lines \<Longrightarrow> \<exists>pre. lines_nl ls = pre @ lines_nl tl_lines"
  by (metis append_take_drop_id lines_nl_append)

lemma section_items_empty: "section_items [] = ''- None''"
  by (simp add: section_items_def)

lemma append_list_empty: "append_list title [] = [[], title, ''- None'']"
  by (simp add: append_list_def)

lemma render_report_markdown_lists:
  assumes "list_field a ''findings'' = Inr fs" "list_field a ''bottlenecks'' = Inr bs"
    "list_field a ''likely_causes'' = Inr cs" "list_field a ''next_actions'' = Inr ns"
  shows "\<exists>pre. render_report_markdown F g r p m hm hl a =
           Inr (pre @ lines_nl
             [''## Findings'', section_items (map (py_str F) fs), [],
              ''## Bottlenecks'', section_items (map (py_str F) bs), [],
              ''## Likely Causes'', section_items (map (py_str F) cs), [],
              ''## Next Actions'', section_items (map (py_str F) ns)])"
  unfolding render_report_markdown_def
  apply (simp only: bnd_simps Let_def assms sum.inject)
  apply (rule lines_nl_suffix[where n = 36])
  apply simp
  done

lemma render_report_text_lists:
  assumes "list_field a ''findings'' = Inr fs" "list_field a ''bottlenecks'' = Inr bs"
    "list_field a ''likely_causes'' = Inr cs" "list_field a ''next_actions'' = Inr ns"
  shows "\<exists>pre. render_report_text F g r p m hm hl a =
           Inr (pre @ lines_nl
             (append_list ''Findings'' (map (py_str F) fs) @
              append_list ''Bottlenecks'' (map (py_str F) bs) @
              append_list ''Likely Causes'' (map (py_str F) cs) @
              append_list ''Next Actions'' (map (py_str F) ns)))"
  unfolding render_report_text_def
  by (simp only: bnd_simps Let_def assms sum.inject lines_nl_append) blast

section \<open>A run with every source down\<close>

lemma extract_k6_highlights_empty:
  "extract_k6_highlights (JObj []) =
     Inr \<lparr>http_req_duration_p95_ms = None, hl_http_req_failed_rate = None,
           checks_pass_rate = None, iterations = None, vus_max = None\<rparr>"
  by code_simp

lemma collect_prometheus_loop_all_fail:
  assumes "\<forall>q. range_q q = RequestException (pm q)"
  shows "queries \<noteq> [] \<Longrightarrow>
         \<exists>qs. collect_prometheus_loop range_q instant_q queries (acc, h) =
           Inr (qs, \<lparr>health_status = ''degraded'',
                      health_error = ''Prometheus query failure: '' @ pm (snd (last queries))\<rparr>)"
proof (induction queries arbitrary: acc h)
  case Nil
  then show ?case by simp
next
  case (Cons q queries)
  obtain name ex where q: "q = (name, ex)" by (cases q)
  show ?case
  proof (cases "queries = []")
    case True
    then show ?thesis using assms q by (simp add: Let_def)
  next
    case False
    from Cons.IH[OF False] assms q False show ?thesis by (simp add: Let_def)
  qed
qed

lemma collect_prometheus_all_fail:
  assumes "\<forall>q. range_q q = RequestException (pm q)"
  shows "\<exists>qs. collect_prometheus range_q instant_q window =
           Inr (\<lparr>prom_window = window, prom_queries = qs\<rparr>,
                \<lparr>health_status = ''degraded'',
                 health_error = ''Prometheus query failure: '' @
                    pm ''sum(rate(sanctum_message_throughput_total[1m]))''\<rparr>)"
proof -
  have ne: "DEFAULT_PROM_QUERIES \<noteq> []"
    and l: "snd (last DEFAULT_PROM_QUERIES) = ''sum(rate(sanctum_message_throughput_total[1m]))''"
    by (simp_all add: DEFAULT_PROM_QUERIES_def)
  from collect_prometheus_loop_all_fail[OF assms ne, of instant_q "[]"
         "\<lparr>health_status = ''ok'', health_error = []\<rparr>"]
  show ?thesis unfolding collect_prometheus_def l by (auto simp: bnd_def)
qed

lemma collect_loki_all_fail:
  assumes "\<forall>q. loki_q q = RequestException (lm q)"
  shows "collect_loki loki_q window =
           Inr (\<lparr>loki_window = window,
                 loki_queries =
                   [\<lparr>query_name = ''severity'', query_expr = severity_query, entry_count = 0\<rparr>,
                    \<lparr>query_name = ''rate_limit'', query_expr = rate_limit_query, entry_count = 0\<rparr>],
                 entries = []\<rparr>,
                \<lparr>health_status = ''degraded'',
                 health_error = ''Loki query failure: '' @ lm rate_limit_query\<rparr>)"
  using assms by (simp add: collect_loki_def Let_def bnd_def)

lemma build_rate_limit_signals_empty:
  "entries loki = [] \<Longrightarrow>
   build_rate_limit_signals fl (JObj []) profile loki =
     Inr \<lparr>http_req_failed_rate = None, http_req_failed_threshold = profile_threshold profile,
           loki_rate_limit_entry_count = 0, critical_write_checks = [],
           likely_rate_limited_endpoints = []\<rparr>"
proof -
  have 1: "observed_failed_rate fl (JObj []) = Inr None"
    by (simp add: observed_failed_rate_def py_get_or_def py_get_def dict_get_or_def dict_get_def
        py_or_def bnd_def)
  have 2: "resolve_threshold (JObj []) profile = Inr (profile_threshold profile)"
    by (simp add: resolve_threshold_def parse_failure_threshold_from_summary_def py_get_or_def
        py_get_def dict_get_or_def dict_get_def py_or_def bnd_def)
  have 3: "extract_root_group_checks (JObj []) = Inr []"
    by (simp add: extract_root_group_checks_def py_get_def dict_get_def py_or_def bnd_def)
  have 4: "write_checks_loop [] CANONICAL_WRITE_CHECKS ([], []) = ([], [])"
    by (simp add: CANONICAL_WRITE_CHECKS_def)
  assume "entries loki = []"
  then show ?thesis
    by (simp add: build_rate_limit_signals_def 1 2 3 4 bnd_def endpoints_of_def)
qed

lemma call_ollama_unusable:
  "call_ollama l outcome = Inr (ma, oh) \<Longrightarrow> \<not> truthy ma \<Longrightarrow>
   health_status oh = ''degraded'' \<and> health_error oh \<noteq> []"
  by (cases outcome) (auto simp: call_ollama_def bnd_def split: sum.splits)

lemma apply_status_policy_fallback:
  assumes "health_errors health_map \<noteq> []"
  shows "apply_status_policy F (default_ai_analysis profile health_map hl)
           \<lparr>http_req_failed_rate = None, http_req_failed_threshold = t,
            loki_rate_limit_entry_count = n, critical_write_checks = [],
            likely_rate_limited_endpoints = eps\<rparr> profile' =
         Inr \<lparr>model_fields = default_ai_analysis profile health_map hl,
               status = ''WARNING'', deterministic_status = ''HEALTHY'',
               deterministic_reasons = [],
               rate_limit_signals =
                 \<lparr>http_req_failed_rate = None, http_req_failed_threshold = t,
                  loki_rate_limit_entry_count = n, critical_write_checks = [],
                  likely_rate_limited_endpoints = eps\<rparr>\<rparr>"
proof -
  have u: "py_upper ''WARNING'' = ''WARNING''" by code_simp
  have m: "model_status (default_ai_analysis profile health_map hl) = Inr ''WARNING''"
    using assms
    by (simp add: model_status_def default_ai_analysis_def Let_def dict_get_def py_or_def u
        severity_order_def)
  have d: "deterministic_policy F \<lparr>http_req_failed_rate = None, http_req_failed_threshold = t,
            loki_rate_limit_entry_count = n, critical_write_checks = [],
            likely_rate_limited_endpoints = eps\<rparr> profile' = (''HEALTHY'', [])"
    by (simp add: deterministic_policy_def)
  have s: "merge_status ''WARNING'' ''HEALTHY'' = ''WARNING''"
    by (simp add: merge_status_def severity_def severity_order_def)
  show ?thesis
    by (simp add: apply_status_policy_def d m s bnd_def)
qed

lemma default_ai_analysis_lists:
  "list_field \<lparr>model_fields = default_ai_analysis profile health_map hl, status = st,
                deterministic_status = ds, deterministic_reasons = rs, rate_limit_signals = rls\<rparr>
      ''findings''
     = Inr (map JStr (if health_errors health_map \<noteq> [] then health_errors health_map
                      else [''No major data-source failures detected during report generation.'']))"
  "list_field \<lparr>model_fields = default_ai_analysis profile health_map hl, status = st,
                deterministic_status = ds, deterministic_reasons = rs, rate_limit_signals = rls\<rparr>
      ''bottlenecks'' = Inr []"
  "list_field \<lparr>model_fields = default_ai_analysis profile health_map hl, status = st,
                deterministic_status = ds, deterministic_reasons = rs, rate_limit_signals = rls\<rparr>
      ''likely_causes'' = Inr []"
  "list_field \<lparr>model_fields = default_ai_analysis profile health_map hl, status = st,
                deterministic_status = ds, deterministic_reasons = rs, rate_limit_signals = rls\<rparr>
      ''next_actions''
     = Inr [JStr ''Verify Prometheus/Loki/Ollama connectivity before next run.'',
            JStr ''Review k6 summary metrics in summary.json for precise thresholds.'']"
  by (simp_all add: list_field_def default_ai_analysis_def Let_def dict_get_or_def py_or_def
      py_list_def)

lemma render_report_html_returns:
  "list_field a ''findings'' = Inr fs \<Longrightarrow> list_field a ''next_actions'' = Inr ns \<Longrightarrow>
   \<exists>doc. render_report_html F g r p m hm hl a l = Inr doc"
  unfolding render_report_html_def by (simp only: bnd_simps Let_def) blast

lemma render_report_markdown_returns:
  "list_field a ''findings'' = Inr fs \<Longrightarrow> list_field a ''bottlenecks'' = Inr bs \<Longrightarrow>
   list_field a ''likely_causes'' = Inr cs \<Longrightarrow> list_field a ''next_actions'' = Inr ns \<Longrightarrow>
   \<exists>doc. render_report_markdown F g r p m hm hl a = Inr doc"
  unfolding render_report_markdown_def by (simp only: bnd_simps Let_def) blast

lemma render_report_text_returns:
  "list_field a ''findings'' = Inr fs \<Longrightarrow> list_field a ''bottlenecks'' = Inr bs \<Longrightarrow>
   list_field a ''likely_causes'' = Inr cs \<Longrightarrow> list_field a ''next_actions'' = Inr ns \<Longrightarrow>
   \<exists>doc. render_report_text F g r p m hm hl a = Inr doc"
  unfolding render_report_text_def by (simp only: bnd_simps Let_def) blast

text \<open>
  Claim C6, as the code has it. The metadata is a dict that resolves to a profile and a
  time window; the summary is missing or not JSON; every range query to the metrics store
  and both queries to the log store fail with a request exception; and the assessment
  endpoint gives no usable answer (its request fails, or what it returns parses to nothing).
  Then the run returns: the analysis is the fallback one, its status is \<^verbatim>\<open>WARNING\<close>, its
  findings name the four degraded sources with their errors, and the HTML, Markdown and
  text reports are rendered from it.
\<close>

theorem degraded_run_falls_back:
  assumes md: "metadata_file e = JObj md"
      and prof: "resolve_profile e md = JStr profile"
      and win: "parse_time_window (timestamp_datetime e) (now_window e) md 10 = Inr (t0, t1)"
      and k6: "summary_file e = JObj []"
      and prom: "\<forall>q. prom_range_response e q = RequestException (pm q)"
      and loki: "\<forall>q. loki_response e q = RequestException (lm q)"
      and oll: "call_ollama (loads e) (ollama_response e) = Inr (ma, oh)"
      and unusable: "\<not> truthy ma"
  shows "\<exists>out. main e = Inr out \<and>
           status (out_analysis out) = ''WARNING'' \<and>
           dict_get (model_fields (out_analysis out)) ''findings'' =
             JArr [JStr (''k6: Missing or invalid '' @ run_dir_str e @ ''/summary.json''),
                   JStr (''prometheus: Prometheus query failure: '' @
                           pm ''sum(rate(sanctum_message_throughput_total[1m]))''),
                   JStr (''loki: Loki query failure: '' @ lm rate_limit_query),
                   JStr (''ollama: '' @ health_error oh)] \<and>
           health_error oh \<noteq> [] \<and>
           map (\<lambda>(k, h). (k, health_status h)) (out_data_source_health out) =
             [(''k6'', ''degraded''), (''prometheus'', ''degraded''),
              (''loki'', ''degraded''), (''ollama'', ''degraded'')] \<and>
           render_report_html (formats e) (generated_html e) (run_dir_str e) profile
             (out_metadata out) (out_data_source_health out)
             \<lparr>http_req_duration_p95_ms = None, hl_http_req_failed_rate = None,
              checks_pass_rate = None, iterations = None, vus_max = None\<rparr>
             (out_analysis out) (out_logs out) = Inr (out_html out) \<and>
           render_report_markdown (formats e) (generated_md e) (run_dir_str e) profile
             (out_metadata out) (out_data_source_health out)
             \<lparr>http_req_duration_p95_ms = None, hl_http_req_failed_rate = None,
              checks_pass_rate = None, iterations = None, vus_max = None\<rparr>
             (out_analysis out) = Inr (out_md out) \<and>
           render_report_text (formats e) (generated_txt e) (run_dir_str e) profile
             (out_metadata out) (out_data_source_health out)
             \<lparr>http_req_duration_p95_ms = None, hl_http_req_failed_rate = None,
              checks_pass_rate = None, iterations = None, vus_max = None\<rparr>
             (out_analysis out) = Inr (out_txt out)"
proof -
  define window where "window = (isoformat e t0, isoformat e t1)"
  define metadata where "metadata =
    dict_setdefault (dict_setdefault (dict_setdefault md ''profile'' (JStr profile))
       ''start_utc'' (JStr (isoformat e t0))) ''end_utc'' (JStr (isoformat e t1))"
  define hl where "hl = \<lparr>http_req_duration_p95_ms = None, hl_http_req_failed_rate = None,
              checks_pass_rate = None, iterations = None, vus_max = None\<rparr>"
  define k6h where "k6h = \<lparr>health_status = ''degraded'',
     health_error = ''Missing or invalid '' @ run_dir_str e @ ''/summary.json''\<rparr>"
  define ph where "ph = \<lparr>health_status = ''degraded'',
     health_error = ''Prometheus query failure: '' @
        pm ''sum(rate(sanctum_message_throughput_total[1m]))''\<rparr>"
  define lh where "lh = \<lparr>health_status = ''degraded'',
     health_error = ''Loki query failure: '' @ lm rate_limit_query\<rparr>"
  define lp where "lp = \<lparr>loki_window = window,
                 loki_queries =
                   [\<lparr>query_name = ''severity'', query_expr = severity_query, entry_count = 0\<rparr>,
                    \<lparr>query_name = ''rate_limit'', query_expr = rate_limit_query, entry_count = 0\<rparr>],
                 entries = []\<rparr>"
  define rls where "rls = \<lparr>http_req_failed_rate = None,
     http_req_failed_threshold = profile_threshold profile,
     loki_rate_limit_entry_count = 0, critical_write_checks = [],
     likely_rate_limited_endpoints = []\<rparr>"
  define hm where "hm = [(''k6'', k6h), (''prometheus'', ph), (''loki'', lh), (''ollama'', oh)]"
  define a where "a = \<lparr>model_fields = default_ai_analysis profile hm hl,
               status = ''WARNING'', deterministic_status = ''HEALTHY'',
               deterministic_reasons = [], rate_limit_signals = rls\<rparr>"
  from call_ollama_unusable[OF oll unusable]
  have oh: "health_status oh = ''degraded''" "health_error oh \<noteq> []" by simp_all
  have errs: "health_errors hm =
      [''k6: Missing or invalid '' @ run_dir_str e @ ''/summary.json'',
       ''prometheus: Prometheus query failure: '' @
           pm ''sum(rate(sanctum_message_throughput_total[1m]))'',
       ''loki: Loki query failure: '' @ lm rate_limit_query,
       ''ollama: '' @ health_error oh]"
    using oh by (simp add: health_errors_def hm_def k6h_def ph_def lh_def)
  then have ne: "health_errors hm \<noteq> []" by simp
  have s1: "read_k6_summary (run_dir_str e) (JObj []) = (JObj [], k6h)"
    by (simp add: read_k6_summary_def k6h_def)
  have s2: "extract_k6_highlights (JObj []) = Inr hl"
    unfolding hl_def by (rule extract_k6_highlights_empty)
  from collect_prometheus_all_fail[OF prom, of "prom_instant_response e" window]
  obtain qs where s3: "collect_prometheus (prom_range_response e) (prom_instant_response e) window
      = Inr (\<lparr>prom_window = window, prom_queries = qs\<rparr>, ph)"
    unfolding ph_def by blast
  have s4: "collect_loki (loki_response e) window = Inr (lp, lh)"
    unfolding lp_def lh_def by (rule collect_loki_all_fail[OF loki])
  have s5: "build_rate_limit_signals (str_float e) (JObj []) profile lp = Inr rls"
    unfolding rls_def by (rule build_rate_limit_signals_empty) (simp add: lp_def)
  have s6: "choose_analysis ma (default_ai_analysis profile hm hl)
              = Inr (default_ai_analysis profile hm hl)"
    using unusable by (simp add: choose_analysis_def)
  have s7: "apply_status_policy (formats e) (default_ai_analysis profile hm hl) rls profile = Inr a"
    unfolding a_def rls_def by (rule apply_status_policy_fallback[OF ne])
  note lf = default_ai_analysis_lists[of profile hm hl "''WARNING''" "''HEALTHY''" "[]" rls,
      folded a_def]
  from render_report_html_returns[OF lf(1) lf(4)]
  obtain html where s8: "render_report_html (formats e) (generated_html e) (run_dir_str e) profile
      metadata hm hl a lp = Inr html" by blast
  from render_report_markdown_returns[OF lf]
  obtain mdoc where s9: "render_report_markdown (formats e) (generated_md e) (run_dir_str e) profile
      metadata hm hl a = Inr mdoc" by blast
  from render_report_text_returns[OF lf]
  obtain tdoc where s10: "render_report_text (formats e) (generated_txt e) (run_dir_str e) profile
      metadata hm hl a = Inr tdoc" by blast
  have m: "main e =
     Inr \<lparr>out_metadata = metadata, out_metrics = \<lparr>prom_window = window, prom_queries = qs\<rparr>,
           out_logs = lp, out_analysis = a,
           out_data_source_health = hm, out_profile = profile,
           out_run_dir = run_dir_str e, out_generated_at = generated_at e,
           out_html = html, out_md = mdoc, out_txt = tdoc\<rparr>"
    unfolding main_def
    by (simp only: md prof win json.case bnd_simps prod.case Let_def fst_conv snd_conv s1 k6
        window_def[symmetric] metadata_def[symmetric] s2 s3 s4 s5 oll hm_def[symmetric]
        s6 s7 s8 s9 s10)
  have f: "dict_get (model_fields a) ''findings'' = JArr (map JStr (health_errors hm))"
    using ne by (simp add: a_def default_ai_analysis_def Let_def dict_get_def)
  let ?out = "\<lparr>out_metadata = metadata, out_metrics = \<lparr>prom_window = window, prom_queries = qs\<rparr>,
           out_logs = lp, out_analysis = a,
           out_data_source_health = hm, out_profile = profile,
           out_run_dir = run_dir_str e, out_generated_at = generated_at e,
           out_html = html, out_md = mdoc, out_txt = tdoc\<rparr>"
  have c1: "status (out_analysis ?out) = ''WARNING''" by (simp add: a_def)
  have c2: "dict_get (model_fields (out_analysis ?out)) ''findings'' =
             JArr [JStr (''k6: Missing or invalid '' @ run_dir_str e @ ''/summary.json''),
                   JStr (''prometheus: Prometheus query failure: '' @
                           pm ''sum(rate(sanctum_message_throughput_total[1m]))''),
                   JStr (''loki: Loki query failure: '' @ lm rate_limit_query),
                   JStr (''ollama: '' @ health_error oh)]"
    unfolding run_output.select_convs f errs by simp
  have c3: "map (\<lambda>(k, h). (k, health_status h)) (out_data_source_health ?out) =
             [(''k6'', ''degraded''), (''prometheus'', ''degraded''),
              (''loki'', ''degraded''), (''ollama'', ''degraded'')]"
    by (simp add: hm_def k6h_def ph_def lh_def oh)
  show ?thesis
    apply (rule exI[of _ ?out])
    unfolding run_output.select_convs
    using m c1[unfolded run_output.select_convs] c2[unfolded run_output.select_convs]
      c3[unfolded run_output.select_convs] oh(2) s8[unfolded hl_def] s9[unfolded hl_def]
      s10[unfolded hl_def]
    by (intro conjI)
qed

theorem degraded_run_falls_back_witness:
  "summary_file
     \<lparr>args_profile = [], run_dir_str = ''tmp/stress-runs/20240101-low'',
      run_dir_name = ''20240101-low'', metadata_file = JObj [], summary_file = JObj [],
      prom_range_response = (\<lambda>q. RequestException ''connection refused''),
      prom_instant_response = (\<lambda>q. RequestException ''connection refused''),
      loki_response = (\<lambda>q. RequestException ''connection refused''),
      ollama_response = RequestException ''connection refused'',
      loads = (\<lambda>s. None), str_float = (\<lambda>s. None), timestamp_datetime = Inr,
      isoformat = (\<lambda>t. ''2027-01-15T08:00:00+00:00''), now_window = 1800000000,
      generated_at = ''2027-01-15T08:00:01+00:00'', generated_html = ''2027-01-15T08:00:02+00:00'',
      generated_md = ''2027-01-15T08:00:03+00:00'', generated_txt = ''2027-01-15T08:00:04+00:00'',
      formats = \<lparr>fmt_fixed = (\<lambda>n x. ''0.0000''), fmt_percent = (\<lambda>n x. ''0.0%''),
                 fmt_num = (\<lambda>x. ''0.05''), fmt_repr = (\<lambda>v. ''None'')\<rparr>\<rparr> = JObj [] \<and>
   (\<exists>out. main
     \<lparr>args_profile = [], run_dir_str = ''tmp/stress-runs/20240101-low'',
      run_dir_name = ''20240101-low'', metadata_file = JObj [], summary_file = JObj [],
      prom_range_response = (\<lambda>q. RequestException ''connection refused''),
      prom_instant_response = (\<lambda>q. RequestException ''connection refused''),
      loki_response = (\<lambda>q. RequestException ''connection refused''),
      ollama_response = RequestException ''connection refused'',
      loads = (\<lambda>s. None), str_float = (\<lambda>s. None), timestamp_datetime = Inr,
      isoformat = (\<lambda>t. ''2027-01-15T08:00:00+00:00''), now_window = 1800000000,
      generated_at = ''2027-01-15T08:00:01+00:00'', generated_html = ''2027-01-15T08:00:02+00:00'',
      generated_md = ''2027-01-15T08:00:03+00:00'', generated_txt = ''2027-01-15T08:00:04+00:00'',
      formats = \<lparr>fmt_fixed = (\<lambda>n x. ''0.0000''), fmt_percent = (\<lambda>n x. ''0.0%''),
                 fmt_num = (\<lambda>x. ''0.05''), fmt_repr = (\<lambda>v. ''None'')\<rparr>\<rparr> = Inr out \<and>
      status (out_analysis out) = ''WARNING'' \<and>
      dict_get (model_fields (out_analysis out)) ''findings'' =
        JArr [JStr ''k6: Missing or invalid tmp/stress-runs/20240101-low/summary.json'',
              JStr ''prometheus: Prometheus query failure: connection refused'',
              JStr ''loki: Loki query failure: connection refused'',
              JStr ''ollama: Ollama request failure: connection refused''])"
proof -
  let ?e = "\<lparr>args_profile = [], run_dir_str = ''tmp/stress-runs/20240101-low'',
      run_dir_name = ''20240101-low'', metadata_file = JObj [], summary_file = JObj [],
      prom_range_response = (\<lambda>q. RequestException ''connection refused''),
      prom_instant_response = (\<lambda>q. RequestException ''connection refused''),
      loki_response = (\<lambda>q. RequestException ''connection refused''),
      ollama_response = RequestException ''connection refused'',
      loads = (\<lambda>s. None), str_float = (\<lambda>s. None), timestamp_datetime = Inr,
      isoformat = (\<lambda>t. ''2027-01-15T08:00:00+00:00''), now_window = 1800000000,
      generated_at = ''2027-01-15T08:00:01+00:00'', generated_html = ''2027-01-15T08:00:02+00:00'',
      generated_md = ''2027-01-15T08:00:03+00:00'', generated_txt = ''2027-01-15T08:00:04+00:00'',
      formats = \<lparr>fmt_fixed = (\<lambda>n x. ''0.0000''), fmt_percent = (\<lambda>n x. ''0.0%''),
                 fmt_num = (\<lambda>x. ''0.05''), fmt_repr = (\<lambda>v. ''None'')\<rparr>\<rparr>"
  let ?oh = "\<lparr>health_status = ''degraded'',
              health_error = ''Ollama request failure: connection refused''\<rparr>"
  have h1: "metadata_file ?e = JObj []" by simp
  have h2: "resolve_profile ?e [] = JStr ''low''"
    by (simp add: resolve_profile_def dict_get_def py_or_def last_segment_def)
  have h3: "parse_time_window (timestamp_datetime ?e) (now_window ?e) [] 10
              = Inr (1799999400, 1800000000)"
    by (simp add: parse_time_window_def dict_get_def)
  have h4: "summary_file ?e = JObj []" by simp
  have h5: "\<forall>q. prom_range_response ?e q = RequestException ((\<lambda>q. ''connection refused'') q)"
    by simp
  have h6: "\<forall>q. loki_response ?e q = RequestException ((\<lambda>q. ''connection refused'') q)"
    by simp
  have h7: "call_ollama (loads ?e) (ollama_response ?e) = Inr (JObj [], ?oh)"
    by (simp add: call_ollama_def)
  have h8: "\<not> truthy (JObj [])" by simp
  from degraded_run_falls_back[OF h1 h2 h3 h4 h5 h6 h7 h8]
  obtain out where "main ?e = Inr out" "status (out_analysis out) = ''WARNING''"
    "dict_get (model_fields (out_analysis out)) ''findings'' =
             JArr [JStr (''k6: Missing or invalid '' @ run_dir_str ?e @ ''/summary.json''),
                   JStr (''prometheus: Prometheus query failure: '' @ ''connection refused''),
                   JStr (''loki: Loki query failure: '' @ ''connection refused''),
                   JStr (''ollama: '' @ health_error ?oh)]"
    by blast
  then show ?thesis using h4 by (intro conjI exI[of _ out]) simp_all
qed

text \<open>
  Claim C6 as stated fails: with the three collectors failing but the assessment endpoint
  answering \<^verbatim>\<open>{"status": "HEALTHY", "findings": []}\<close>, the answer is the analysis; the
  final status is \<^verbatim>\<open>HEALTHY\<close> and the findings are empty.
\<close>

theorem healthy_model_answer_is_kept:
  "map_sum id
     (\<lambda>out. (status (out_analysis out),
             dict_get (model_fields (out_analysis out)) ''findings'',
             map (\<lambda>(k, h). (k, health_status h)) (out_data_source_health out)))
     (main
       \<lparr>args_profile = [], run_dir_str = ''tmp/stress-runs/20240101-low'',
        run_dir_name = ''20240101-low'', metadata_file = JObj [], summary_file = JObj [],
        prom_range_response = (\<lambda>q. RequestException ''connection refused''),
        prom_instant_response = (\<lambda>q. RequestException ''connection refused''),
        loki_response = (\<lambda>q. RequestException ''connection refused''),
        ollama_response = Response (JObj [(''response'',
          JStr ''{\"status\": \"HEALTHY\", \"summary\": \"No issues found.\", \"findings\": []}'')]),
        loads = (\<lambda>s. if s = ''{\"status\": \"HEALTHY\", \"summary\": \"No issues found.\", \"findings\": []}''
                      then Some (JObj [(''status'', JStr ''HEALTHY''),
                                       (''summary'', JStr ''No issues found.''),
                                       (''findings'', JArr [])])
                      else None),
        str_float = (\<lambda>s. None), timestamp_datetime = Inr,
        isoformat = (\<lambda>t. ''2027-01-15T08:00:00+00:00''), now_window = 1800000000,
        generated_at = ''2027-01-15T08:00:01+00:00'', generated_html = ''2027-01-15T08:00:02+00:00'',
        generated_md = ''2027-01-15T08:00:03+00:00'', generated_txt = ''2027-01-15T08:00:04+00:00'',
        formats = \<lparr>fmt_fixed = (\<lambda>n x. ''0.0000''), fmt_percent = (\<lambda>n x. ''0.0%''),
                   fmt_num = (\<lambda>x. ''0.05''), fmt_repr = (\<lambda>v. ''None'')\<rparr>\<rparr>)
   = Inr (''HEALTHY'', JArr [],
          [(''k6'', ''degraded''), (''prometheus'', ''degraded''),
           (''loki'', ''degraded''), (''ollama'', ''ok'')])"
  by code_simp

end
